theory Spec2Isabelle
  imports Complex_Main "HOL-Library.Sublist" "HOL-Library.Multiset"
begin

section \<open>Header values, errors and FITS headers\<close>

text \<open>
  A FITS header value is a Python string or a Python number (int, float and bool all
  behave as numbers in the operations used by imagecube.py; floats are idealised as
  reals). Every raise and every \<open>sys.exit()\<close> of the source is a value of \<open>error\<close>.
\<close>

datatype val = Str string | Num real

datatype error =
  SysExit | KeyError string | TypeError | ValueError | AttributeError | IndexError
  | ZeroDivisionError | IOError

text \<open>
  A header maps a keyword to its value and its comment. \<open>'K' in header\<close> is
  \<open>h K \<noteq> None\<close>, \<open>header['K']\<close> is \<open>getitem\<close>, \<open>header.comments['K']\<close> is
  \<open>getcomment\<close>; assigning a plain value keeps the comment of an existing card,
  assigning a pair sets both.
\<close>

type_synonym header = "string \<rightharpoonup> (val \<times> string)"

definition getitem :: "header \<Rightarrow> string \<Rightarrow> error + val" where
  "getitem h k = (case h k of None \<Rightarrow> Inl (KeyError k) | Some (v, c) \<Rightarrow> Inr v)"

definition getcomment :: "header \<Rightarrow> string \<Rightarrow> error + string" where
  "getcomment h k = (case h k of None \<Rightarrow> Inl (KeyError k) | Some (v, c) \<Rightarrow> Inr c)"

definition setitem :: "header \<Rightarrow> string \<Rightarrow> val \<Rightarrow> header" where
  "setitem h k v = h(k \<mapsto> (v, case h k of None \<Rightarrow> [] | Some (v0, c) \<Rightarrow> c))"

definition setitem_comment :: "header \<Rightarrow> string \<Rightarrow> val \<Rightarrow> string \<Rightarrow> header" where
  "setitem_comment h k v c = h(k \<mapsto> (v, c))"

subsection \<open>Python operators on header values\<close>

text \<open>\<open>sub in s\<close> on strings: \<open>sub\<close> occurs as a contiguous piece of \<open>s\<close>.\<close>

fun contains :: "string \<Rightarrow> string \<Rightarrow> bool" where
  "contains sub [] = (sub = [])"
| "contains sub (c # cs) = (prefix sub (c # cs) \<or> contains sub cs)"

definition py_in :: "string \<Rightarrow> val \<Rightarrow> error + bool" where
  "py_in sub v = (case v of Str s \<Rightarrow> Inr (contains sub s) | Num r \<Rightarrow> Inl TypeError)"

text \<open>\<open>str.lower()\<close> on a byte string; a number has no such method.\<close>

definition lower_char :: "char \<Rightarrow> char" where
  "lower_char c =
     (case map_of (zip ''ABCDEFGHIJKLMNOPQRSTUVWXYZ'' ''abcdefghijklmnopqrstuvwxyz'') c of
        Some l \<Rightarrow> l
      | None \<Rightarrow> c)"

definition py_lower :: "val \<Rightarrow> error + string" where
  "py_lower v = (case v of Str s \<Rightarrow> Inr (map lower_char s) | Num r \<Rightarrow> Inl AttributeError)"

text \<open>\<open>abs(x)\<close>, \<open>x**2\<close> and multiplication by a float fail on a string.\<close>

definition py_abs :: "val \<Rightarrow> error + real" where
  "py_abs v = (case v of Num r \<Rightarrow> Inr \<bar>r\<bar> | Str s \<Rightarrow> Inl TypeError)"

definition py_number :: "val \<Rightarrow> error + real" where
  "py_number v = (case v of Num r \<Rightarrow> Inr r | Str s \<Rightarrow> Inl TypeError)"

text \<open>
  Python 2 orders any number before any string, so for a string \<open>i\<close> the test
  \<open>i >= lower\<close> holds and \<open>i <= upper\<close> does not.
\<close>

definition py_ge :: "val \<Rightarrow> real \<Rightarrow> bool" where
  "py_ge v x = (case v of Num r \<Rightarrow> x \<le> r | Str s \<Rightarrow> True)"

definition py_le :: "val \<Rightarrow> real \<Rightarrow> bool" where
  "py_le v x = (case v of Num r \<Rightarrow> r \<le> x | Str s \<Rightarrow> False)"

subsection \<open>What the libraries supply\<close>

text \<open>
  The unit name tables of astropy (\<open>u.micron.names\<close>, \<open>u.um.names\<close>,
  \<open>u.angstrom.names\<close>), its conversion \<open>u.um.to(u.angstrom, x)\<close> of a length in micron
  into angstrom, and Python's parser of a string into a float are not code of
  imagecube.py; they are taken as parameters. \<open>astropy_units\<close> is the instance used
  for concrete runs: the names astropy registers, a parser that accepts no string, and
  the multiplication by the factor astropy computes in double precision for micron to
  angstrom, \<open>1e-6 / (0.1 * 1e-9)\<close>, which is the double just below 10000.
\<close>

record extern =
  micron_names :: "string list"
  um_names :: "string list"
  angstrom_names :: "string list"
  str_to_float :: "string \<Rightarrow> real option"
  um_to_angstrom :: "real \<Rightarrow> real"

definition astropy_units :: extern where
  "astropy_units = \<lparr> micron_names = [''micron''],
                     um_names = [''um'', ''micrometer''],
                     angstrom_names = [''AA'', ''Angstrom'', ''angstrom''],
                     str_to_float = (\<lambda>s. None),
                     um_to_angstrom = (\<lambda>x. x * (10000 - 1 / 2 ^ 39)) \<rparr>"

definition py_float :: "extern \<Rightarrow> val \<Rightarrow> error + real" where
  "py_float E v =
     (case v of
        Num r \<Rightarrow> Inr r
      | Str s \<Rightarrow> (case str_to_float E s of None \<Rightarrow> Inl ValueError | Some r \<Rightarrow> Inr r))"

section \<open>Metadata resolver\<close>

definition wavelength_to_microns :: "extern \<Rightarrow> val \<Rightarrow> string \<Rightarrow> error + real" where
  "wavelength_to_microns E wavelength unit =
     (if unit \<in> set (micron_names E) \<or> unit \<in> set (um_names E) then py_float E wavelength
      else if unit \<in> set (angstrom_names E) then
        (case py_float E wavelength of Inl e \<Rightarrow> Inl e | Inr w \<Rightarrow> Inr (w * (1 / 10000)))
      else Inr 1)"

definition get_instrument :: "header \<Rightarrow> error + val" where
  "get_instrument h =
     (case h ''INSTRUME'' of
        Some (v, c) \<Rightarrow> Inr v
      | None \<Rightarrow>
        (case h ''INF0001'' of
           Some (v, c) \<Rightarrow>
             (case py_in ''galex'' v of
                Inl e \<Rightarrow> Inl e
              | Inr b \<Rightarrow> Inr (Str (if b then ''GALEX'' else '''')))
         | None \<Rightarrow>
           (case h ''ORIGIN'' of
              Some (v, c) \<Rightarrow>
                (case py_in ''2MASS'' v of
                   Inl e \<Rightarrow> Inl e
                 | Inr b \<Rightarrow> Inr (Str (if b then ''2MASS'' else '''')))
            | None \<Rightarrow> Inl SysExit)))"

definition deg_to_arcsec :: "real \<Rightarrow> real" where
  "deg_to_arcsec x = x * 3600"

definition get_native_pixelscale :: "header \<Rightarrow> val \<Rightarrow> error + val" where
  "get_native_pixelscale h instrument =
     (if instrument = Str ''IRAC'' then
        (case getitem h ''PXSCAL1'' of
           Inl e \<Rightarrow> Inl e
         | Inr v \<Rightarrow> (case py_abs v of Inl e \<Rightarrow> Inl e | Inr a \<Rightarrow> Inr (Num a)))
      else if instrument = Str ''MIPS'' then getitem h ''PLTSCALE''
      else if instrument = Str ''SPIRE'' then
        (case getitem h ''CDELT2'' of
           Inl e \<Rightarrow> Inl e
         | Inr v \<Rightarrow>
             (case py_abs v of Inl e \<Rightarrow> Inl e | Inr a \<Rightarrow> Inr (Num (deg_to_arcsec a))))
      else
        (case h ''CDELT2'' of
           None \<Rightarrow> Inr (Num 0)
         | Some (v, c) \<Rightarrow>
             (case py_abs v of Inl e \<Rightarrow> Inl e | Inr a \<Rightarrow> Inr (Num (deg_to_arcsec a)))))"

definition WAVELENGTH_2MASS_J :: real where "WAVELENGTH_2MASS_J = 1.2409"
definition WAVELENGTH_2MASS_H :: real where "WAVELENGTH_2MASS_H = 1.6514"
definition WAVELENGTH_2MASS_KS :: real where "WAVELENGTH_2MASS_KS = 2.1656"

definition get_wavelength :: "header \<Rightarrow> error + (val \<times> string)" where
  "get_wavelength h =
     (case h ''WAVELENG'' of
        Some (v, c) \<Rightarrow> Inr (v, c)
      | None \<Rightarrow>
        (case h ''WAVELNTH'' of
           Some (v, c) \<Rightarrow> Inr (v, ''micron'')
         | None \<Rightarrow>
           (case h ''FILTER'' of
              Some (f, c) \<Rightarrow>
                (case get_instrument h of
                   Inl e \<Rightarrow> Inl e
                 | Inr instrument \<Rightarrow>
                     if instrument = Str ''2MASS'' then
                       (case py_lower f of
                          Inl e \<Rightarrow> Inl e
                        | Inr lf \<Rightarrow>
                            Inr (if lf = ''j'' then Num WAVELENGTH_2MASS_J
                                 else if lf = ''h'' then Num WAVELENGTH_2MASS_H
                                 else if lf = ''k'' then Num WAVELENGTH_2MASS_KS
                                 else f, ''micron''))
                     else Inr (f, ''micron''))
            | None \<Rightarrow> Inr (Num 0, []))))"

section \<open>Flux conversion engine\<close>

definition MJY_PER_SR_TO_JY_PER_PIXEL :: real where
  "MJY_PER_SR_TO_JY_PER_PIXEL = 2.3504 * (1 / 10 ^ 5)"

definition FUV_LAMBDA_CON :: real where
  "FUV_LAMBDA_CON = 1.40 * (1 / 10 ^ 15)"

definition NUV_LAMBDA_CON :: real where
  "NUV_LAMBDA_CON = 2.06 * (1 / 10 ^ 16)"

definition FVEGA_J :: real where "FVEGA_J = 1594"
definition FVEGA_H :: real where "FVEGA_H = 1024"
definition FVEGA_KS :: real where "FVEGA_KS = 666.7"

definition S250_BEAM_AREA :: real where "S250_BEAM_AREA = 423"
definition S350_BEAM_AREA :: real where "S350_BEAM_AREA = 751"
definition S500_BEAM_AREA :: real where "S500_BEAM_AREA = 1587"

text \<open>
  \<open>JY_CONVERSION\<close> is the inverse of one jansky in erg/s/cm2/Hz, and the speed of light
  is read from astropy in angstrom per second; both are values of the library.
\<close>

definition JY_CONVERSION :: real where
  "JY_CONVERSION = 10 ^ 23"

definition c_angstrom_per_s :: real where
  "c_angstrom_per_s = 299792458 * 10 ^ 10"

text \<open>
  The choice of the calibration constant in the GALEX branch of
  \<open>get_conversion_factor\<close> (its variable \<open>f_lambda_con\<close>), as a function of the
  wavelength in angstrom.
\<close>

definition f_lambda_con :: "real \<Rightarrow> real" where
  "f_lambda_con wavelength =
     (if wavelength < 2000 then FUV_LAMBDA_CON else NUV_LAMBDA_CON)"

definition get_conversion_factor :: "extern \<Rightarrow> header \<Rightarrow> val \<Rightarrow> error + real" where
  "get_conversion_factor E h instrument =
     (if instrument = Str ''IRAC'' then
        (case get_native_pixelscale h (Str ''IRAC'') of
           Inl e \<Rightarrow> Inl e
         | Inr pixelscale \<Rightarrow>
             (case py_number pixelscale of
                Inl e \<Rightarrow> Inl e
              | Inr p \<Rightarrow> Inr (MJY_PER_SR_TO_JY_PER_PIXEL * p ^ 2)))
      else if instrument = Str ''MIPS'' then
        (case get_native_pixelscale h (Str ''MIPS'') of
           Inl e \<Rightarrow> Inl e
         | Inr pixelscale \<Rightarrow>
             (case py_number pixelscale of
                Inl e \<Rightarrow> Inl e
              | Inr p \<Rightarrow> Inr (MJY_PER_SR_TO_JY_PER_PIXEL * p ^ 2)))
      else if instrument = Str ''GALEX'' then
        (case getitem h ''WAVELENG'' of
           Inl e \<Rightarrow> Inl e
         | Inr v \<Rightarrow>
             (case py_number v of
                Inl e \<Rightarrow> Inl e
              | Inr w \<Rightarrow>
                  (let wavelength = um_to_angstrom E w
                   in Inr ((JY_CONVERSION * f_lambda_con wavelength * wavelength ^ 2)
                           / c_angstrom_per_s))))
      else if instrument = Str ''2MASS'' then
        (case getitem h ''FILTER'' of
           Inl e \<Rightarrow> Inl e
         | Inr f \<Rightarrow>
             (let fvega = (if f = Str ''j'' then FVEGA_J
                           else if f = Str ''h'' then FVEGA_H
                           else if f = Str ''k'' then FVEGA_KS
                           else 0)
              in (case getitem h ''MAGZP'' of
                    Inl e \<Rightarrow> Inl e
                  | Inr m \<Rightarrow>
                      (case py_number m of
                         Inl e \<Rightarrow> Inl e
                       | Inr z \<Rightarrow> Inr (fvega * 10 powr (- 0.4 * z))))))
      else if instrument = Str ''PACS'' then
        (case h ''BUNIT'' of
           None \<Rightarrow> Inr 1
         | Some (b, c) \<Rightarrow> (case py_lower b of Inl e \<Rightarrow> Inl e | Inr lb \<Rightarrow> Inr 1))
      else if instrument = Str ''SPIRE'' then
        (case get_native_pixelscale h (Str ''SPIRE'') of
           Inl e \<Rightarrow> Inl e
         | Inr pixelscale \<Rightarrow>
             (case getitem h ''WAVELENG'' of
                Inl e \<Rightarrow> Inl e
              | Inr wavelength \<Rightarrow>
                  if wavelength = Num 250 then
                    (case py_number pixelscale of
                       Inl e \<Rightarrow> Inl e | Inr p \<Rightarrow> Inr (p ^ 2 / S250_BEAM_AREA))
                  else if wavelength = Num 350 then
                    (case py_number pixelscale of
                       Inl e \<Rightarrow> Inl e | Inr p \<Rightarrow> Inr (p ^ 2 / S350_BEAM_AREA))
                  else if wavelength = Num 500 then
                    (case py_number pixelscale of
                       Inl e \<Rightarrow> Inl e | Inr p \<Rightarrow> Inr (p ^ 2 / S500_BEAM_AREA))
                  else Inr 0))
      else Inr 0)"

section \<open>Common resolution\<close>

text \<open>
  An image of the working collection is the tuple (pixel array, header, file name
  without extension) that the main program zips together.
\<close>

type_synonym pixels = "real list list"

record image =
  data :: pixels
  hdr :: header
  path :: string

definition wavelength_range :: "val list \<Rightarrow> real \<Rightarrow> real \<Rightarrow> bool" where
  "wavelength_range wavelengths lower upper =
     fold (\<lambda>i return_value. if py_ge i lower \<and> py_le i upper then True else return_value)
          wavelengths False"

text \<open>
  The first loop of \<open>get_fwhm_value\<close>: the dictionary from each instrument to the list
  of the wavelengths of its images, in the order of the collection.
\<close>

fun instruments_with_wavelengths ::
  "image list \<Rightarrow> (val \<rightharpoonup> val list) \<Rightarrow> error + (val \<rightharpoonup> val list)" where
  "instruments_with_wavelengths [] d = Inr d"
| "instruments_with_wavelengths (im # rest) d =
     (case get_instrument (hdr im) of
        Inl e \<Rightarrow> Inl e
      | Inr instrument \<Rightarrow>
          (case get_wavelength (hdr im) of
             Inl e \<Rightarrow> Inl e
           | Inr (wavelength, units) \<Rightarrow>
               instruments_with_wavelengths rest
                 (case d instrument of
                    Some ws \<Rightarrow> d(instrument \<mapsto> ws @ [wavelength])
                  | None \<Rightarrow> d(instrument \<mapsto> [wavelength]))))"

definition covers :: "(val \<rightharpoonup> val list) \<Rightarrow> string \<Rightarrow> real \<Rightarrow> real \<Rightarrow> bool" where
  "covers d instrument lower upper =
     (case d (Str instrument) of
        None \<Rightarrow> False
      | Some ws \<Rightarrow> wavelength_range ws lower upper)"

definition get_fwhm_value :: "image list \<Rightarrow> error + real" where
  "get_fwhm_value images_with_headers =
     (case instruments_with_wavelengths images_with_headers Map.empty of
        Inl e \<Rightarrow> Inl e
      | Inr d \<Rightarrow>
          Inr (if covers d ''MIPS'' 140 170 then 76
               else if covers d ''SPIRE'' 490 510 then 43
               else if covers d ''MIPS'' 50 90 then 37
               else if covers d ''SPIRE'' 300 400 then 30
               else if covers d ''SPIRE'' 200 299 then 22
               else if covers d ''PACS'' 140 180 then 18
               else if covers d ''MIPS'' 18 30 then 13
               else if covers d ''PACS'' 90 110 then 12.5
               else if covers d ''PACS'' 60 80 then 10.5
               else 0))"

section \<open>Reference sky position\<close>

text \<open>
  \<open>numpy.mean\<close> is a library function: on an empty sequence it returns the float nan
  (with a warning, no exception), on numbers their arithmetic mean, and it rejects
  strings. The result type keeps nan apart from the finite values.
\<close>

datatype npfloat = NaN | Fin real

fun numbers :: "val list \<Rightarrow> error + real list" where
  "numbers [] = Inr []"
| "numbers (v # vs) =
     (case py_number v of
        Inl e \<Rightarrow> Inl e
      | Inr r \<Rightarrow> (case numbers vs of Inl e \<Rightarrow> Inl e | Inr rs \<Rightarrow> Inr (r # rs)))"

definition np_mean :: "val list \<Rightarrow> error + npfloat" where
  "np_mean vs =
     (case numbers vs of
        Inl e \<Rightarrow> Inl e
      | Inr rs \<Rightarrow> Inr (if rs = [] then NaN else Fin (sum_list rs / real (length rs))))"

text \<open>The loop of \<open>get_herschel_mean\<close>, with the list \<open>values\<close> it appends to.\<close>

fun herschel_values :: "image list \<Rightarrow> string \<Rightarrow> val list \<Rightarrow> error + val list" where
  "herschel_values [] keyword vals = Inr vals"
| "herschel_values (im # rest) keyword vals =
     (case get_instrument (hdr im) of
        Inl e \<Rightarrow> Inl e
      | Inr instrument \<Rightarrow>
          if instrument = Str ''PACS'' \<or> instrument = Str ''SPIRE'' then
            (case getitem (hdr im) keyword of
               Inl e \<Rightarrow> Inl e
             | Inr v \<Rightarrow> herschel_values rest keyword (vals @ [v]))
          else herschel_values rest keyword vals)"

definition get_herschel_mean :: "image list \<Rightarrow> string \<Rightarrow> error + npfloat" where
  "get_herschel_mean images_with_headers keyword =
     (case herschel_values images_with_headers keyword [] of
        Inl e \<Rightarrow> Inl e
      | Inr vals \<Rightarrow> np_mean vals)"

text \<open>
  The head of \<open>register_images\<close> (and of \<open>resample_images\<close>): the reference longitude
  and latitude. The globals \<open>ra_input\<close> and \<open>dec_input\<close> are \<open>None\<close> while they hold the
  empty string of their initialisation, and the float of the command line otherwise.
\<close>

definition register_images_reference ::
  "real option \<Rightarrow> real option \<Rightarrow> image list \<Rightarrow> error + (npfloat \<times> npfloat)" where
  "register_images_reference ra_input dec_input images_with_headers =
     (case (case ra_input of
              Some ra \<Rightarrow> Inr (Fin ra)
            | None \<Rightarrow> get_herschel_mean images_with_headers ''CRVAL1'') of
        Inl e \<Rightarrow> Inl e
      | Inr lngref_input \<Rightarrow>
          (case (case dec_input of
                   Some dec \<Rightarrow> Inr (Fin dec)
                 | None \<Rightarrow> get_herschel_mean images_with_headers ''CRVAL2'') of
             Inl e \<Rightarrow> Inl e
           | Inr latref_input \<Rightarrow> Inr (lngref_input, latref_input)))"


section \<open>Files and directories\<close>

text \<open>
  A path names a node of the file system: whether it is absolute, and its components
  (empty components, that is repeated or trailing slashes, name nothing). The world of
  a run is the list \<open>converted_data\<close> of the main program, the directories that exist
  and the FITS files that exist, each with its pixel array and header. Creating a
  directory and writing a file are taken to succeed.
\<close>

fun split_slash :: "string \<Rightarrow> string list" where
  "split_slash [] = [[]]"
| "split_slash (c # cs) =
     (if c = CHR ''/'' then [] # split_slash cs
      else (case split_slash cs of [] \<Rightarrow> [[c]] | w # ws \<Rightarrow> (c # w) # ws))"

type_synonym node = "bool \<times> string list"

definition node_of :: "string \<Rightarrow> node" where
  "node_of p = (take 1 p = ''/'', filter (\<lambda>w. w \<noteq> []) (split_slash p))"

definition beneath :: "node \<Rightarrow> node \<Rightarrow> bool" where
  "beneath d n = (fst d = fst n \<and> prefix (snd d) (snd n))"

record world =
  converted_data :: "pixels list"
  dirs :: "node list"
  files :: "node \<rightharpoonup> (pixels \<times> header)"

definition path_exists :: "world \<Rightarrow> string \<Rightarrow> bool" where
  "path_exists w p = (node_of p \<in> set (dirs w) \<or> files w (node_of p) \<noteq> None)"

definition isdir :: "world \<Rightarrow> string \<Rightarrow> bool" where
  "isdir w p = (node_of p \<in> set (dirs w))"

definition makedirs :: "string \<Rightarrow> world \<Rightarrow> world" where
  "makedirs p w = w\<lparr>dirs := dirs w @ [node_of p]\<rparr>"

definition writeto :: "string \<Rightarrow> pixels \<Rightarrow> header \<Rightarrow> world \<Rightarrow> world" where
  "writeto p a h w = w\<lparr>files := (files w)(node_of p \<mapsto> (a, h))\<rparr>"

definition rmtree :: "string \<Rightarrow> world \<Rightarrow> world" where
  "rmtree p w =
     w\<lparr>dirs := filter (\<lambda>n. \<not> beneath (node_of p) n) (dirs w),
       files := (\<lambda>n. if beneath (node_of p) n then None else files w n)\<rparr>"

text \<open>\<open>os.path.dirname\<close> and \<open>os.path.basename\<close>: the two halves of \<open>posixpath.split\<close>.\<close>

definition py_split :: "string \<Rightarrow> string \<times> string" where
  "py_split p =
     (let tail = rev (takeWhile (\<lambda>c. c \<noteq> CHR ''/'') (rev p));
          head = rev (dropWhile (\<lambda>c. c \<noteq> CHR ''/'') (rev p))
      in (if head \<noteq> [] \<and> filter (\<lambda>c. c \<noteq> CHR ''/'') head \<noteq> []
          then rev (dropWhile (\<lambda>c. c = CHR ''/'') (rev head)) else head, tail))"

definition dirname :: "string \<Rightarrow> string" where
  "dirname p = fst (py_split p)"

definition basename :: "string \<Rightarrow> string" where
  "basename p = snd (py_split p)"

text \<open>
  \<open>os.path.splitext(p)[0]\<close>: the extension starts at the last dot of the last
  component, unless only dots precede it there.
\<close>

definition splitext_root :: "string \<Rightarrow> string" where
  "splitext_root p =
     (let tail = rev (takeWhile (\<lambda>c. c \<noteq> CHR ''/'') (rev p))
      in if CHR ''.'' \<in> set (dropWhile (\<lambda>c. c = CHR ''.'') tail)
         then rev (tl (dropWhile (\<lambda>c. c \<noteq> CHR ''.'') (rev p)))
         else p)"

section \<open>Conversion stage\<close>

definition scale :: "pixels \<Rightarrow> real \<Rightarrow> pixels" where
  "scale a f = map (map (\<lambda>x. x * f)) a"

text \<open>One turn of the loop of \<open>convert_images\<close>, on the image at index \<open>i\<close>.\<close>

definition convert_image :: "extern \<Rightarrow> image \<Rightarrow> world \<Rightarrow> error + (image \<times> world)" where
  "convert_image E im w =
     (case get_instrument (hdr im) of
        Inl e \<Rightarrow> Inl e
      | Inr instrument \<Rightarrow>
          (case get_conversion_factor E (hdr im) instrument of
             Inl e \<Rightarrow> Inl e
           | Inr conversion_factor \<Rightarrow>
               (let original_filename = basename (path im);
                    original_directory = dirname (path im);
                    new_directory = original_directory @ ''/converted/'';
                    converted_filename =
                      new_directory @ original_filename @ ''_converted.fits'';
                    w1 = (if \<not> path_exists w new_directory
                          then makedirs new_directory w else w);
                    converted_data_array = scale (data im) conversion_factor;
                    w2 = w1\<lparr>converted_data := converted_data w1 @ [converted_data_array]\<rparr>;
                    h1 = setitem (hdr im) ''BUNIT'' (Str ''Jy/pixel'');
                    h2 = setitem_comment h1 ''JYPXFACT'' (Num conversion_factor)
                           ''Factor to convert original BUNIT into Jy/pixel.''
                in Inr (im\<lparr>hdr := h2\<rparr>,
                        writeto converted_filename converted_data_array h2 w2))))"

fun convert_images ::
  "extern \<Rightarrow> image list \<Rightarrow> world \<Rightarrow> error + (image list \<times> world)" where
  "convert_images E [] w = Inr ([], w)"
| "convert_images E (im # rest) w =
     (case convert_image E im w of
        Inl e \<Rightarrow> Inl e
      | Inr (im', w') \<Rightarrow>
          (case convert_images E rest w' of
             Inl e \<Rightarrow> Inl e
           | Inr (ims, w'') \<Rightarrow> Inr (im' # ims, w'')))"

section \<open>Cleanup\<close>

text \<open>One turn of the loop of \<open>cleanup_output_files\<close>, on the directory name \<open>d\<close>.\<close>

definition cleanup_step :: "string \<Rightarrow> string \<Rightarrow> world \<Rightarrow> world" where
  "cleanup_step directory d w =
     (let subdir = directory @ ''/'' @ d in if isdir w subdir then rmtree subdir w else w)"

definition cleanup_output_files :: "string \<Rightarrow> world \<Rightarrow> world" where
  "cleanup_output_files directory w =
     fold (cleanup_step directory)
          [''converted'', ''registered'', ''convolved'', ''resampled'', ''seds''] w"

text \<open>
  The directories the stages create under the input directory: \<open>converted/\<close> by
  \<open>convert_images\<close>, \<open>registered/\<close> by \<open>register_images\<close>, \<open>convolved/\<close> by
  \<open>convolve_images\<close>, \<open>resampled/\<close> by \<open>resample_images\<close>, \<open>seds/\<close> by \<open>output_seds\<close>
  and \<open>datacube/\<close> by \<open>create_data_cube\<close>, which \<open>resample_images\<close> calls.
\<close>

definition stage_directories :: "string list" where
  "stage_directories =
     [''converted'', ''registered'', ''convolved'', ''resampled'', ''seds'', ''datacube'']"

text \<open>
  The head of \<open>create_data_cube\<close>: it makes \<open>datacube/\<close> under the input directory
  before it reads the resampled files.
\<close>

definition create_data_cube_directory :: "string \<Rightarrow> world \<Rightarrow> world" where
  "create_data_cube_directory directory w =
     (let new_directory = directory @ ''/datacube/''
      in if \<not> path_exists w new_directory then makedirs new_directory w else w)"

section \<open>Ingestion\<close>

text \<open>
  An input file as the main program reads it: its name, the header and the data of the
  primary unit, and the data of the first extension when the file has one.
\<close>

record fits_file =
  file_name :: string
  primary_header :: header
  primary_data :: pixels
  extension_data :: "pixels option"

definition read_file :: "extern \<Rightarrow> fits_file \<Rightarrow> error + image" where
  "read_file E f =
     (let header = primary_header f in
      case (if header ''EXTEND'' \<noteq> None \<and> header ''DSETS___'' \<noteq> None
            then (case extension_data f of None \<Rightarrow> Inl IndexError | Some d \<Rightarrow> Inr d)
            else Inr (primary_data f)) of
        Inl e \<Rightarrow> Inl e
      | Inr img \<Rightarrow>
          (let filename = splitext_root (file_name f) in
           case get_wavelength header of
             Inl e \<Rightarrow> Inl e
           | Inr (wavelength, wavelength_units) \<Rightarrow>
               (case wavelength_to_microns E wavelength wavelength_units of
                  Inl e \<Rightarrow> Inl e
                | Inr wavelength_microns \<Rightarrow>
                    Inr \<lparr> data = img,
                          hdr = setitem_comment header ''WAVELENG''
                                  (Num wavelength_microns) ''micron'',
                          path = filename \<rparr>)))"

fun read_files :: "extern \<Rightarrow> fits_file list \<Rightarrow> error + image list" where
  "read_files E [] = Inr []"
| "read_files E (f # fs) =
     (case read_file E f of
        Inl e \<Rightarrow> Inl e
      | Inr im \<Rightarrow> (case read_files E fs of Inl e \<Rightarrow> Inl e | Inr ims \<Rightarrow> Inr (im # ims)))"

text \<open>
  The sort key \<open>header[1]['WAVELENG']\<close>. After \<open>read_file\<close> the card holds a number
  (lemma \<open>read_files_waveleng\<close> below); the other cases of the definition are never
  reached by the main program.
\<close>

definition waveleng :: "image \<Rightarrow> real" where
  "waveleng im = (case hdr im ''WAVELENG'' of Some (Num r, c) \<Rightarrow> r | _ \<Rightarrow> 0)"

definition images_with_headers :: "extern \<Rightarrow> fits_file list \<Rightarrow> error + image list" where
  "images_with_headers E all_files =
     (case read_files E all_files of
        Inl e \<Rightarrow> Inl e
      | Inr unsorted \<Rightarrow> Inr (sort_key waveleng unsorted))"

section \<open>The stages after conversion\<close>

text \<open>
  The globals that \<open>parse_command_line\<close> sets and the stages read. \<open>phys_size\<close>,
  \<open>ra_input\<close> and \<open>dec_input\<close> are \<open>None\<close> while they hold the empty string of their
  initialisation and the float of the command line otherwise.
\<close>

record config =
  g_phys_size :: "real option"
  g_directory :: string
  g_ra_input :: "real option"
  g_dec_input :: "real option"
  do_conversion :: bool
  do_registration :: bool
  do_convolution :: bool
  do_resampling :: bool
  do_seds :: bool
  do_cleanup :: bool

text \<open>
  The stages call IRAF, the FITS reader and writer, and the plotting library. A run
  records these calls in program order: the IRAF tasks with the arguments the source
  computes, every \<open>fits.open\<close> with its path, the \<open>writeto\<close> of a convolved image, the
  write of the data cube (whose array has one more axis than the images of \<open>files\<close>),
  the \<open>savetxt\<close> of the SED table and, for each figure the plotting loop draws, its
  \<open>savefig\<close> with the directory and the two integers its file name is made of. What
  IRAF writes is not code of imagecube.py: the files that \<open>fits.open\<close> finds are a
  parameter, as is the Gaussian convolution (\<open>make_kernel\<close> followed by \<open>convolve\<close>) of
  an array for a kernel width.
\<close>

datatype call =
    Unlearn string
  | Mkpattern string real real
  | Ccsetwcs string real real val val npfloat npfloat
  | Wregister string string string bool
  | Fits_open string
  | Writeto string
  | Write_cube string "pixels list" header
  | Savetxt string "(nat \<times> nat \<times> val \<times> real) list"
  | Savefig string nat nat

record services =
  fits_open :: "string \<Rightarrow> (pixels \<times> header) option"
  gaussian_convolve :: "pixels \<Rightarrow> real \<Rightarrow> pixels"

record session =
  disk :: world
  calls :: "call list"

definition NYQUIST_SAMPLING_RATE :: real where
  "NYQUIST_SAMPLING_RATE = 3.3"

text \<open>True division of two floats; a zero divisor raises.\<close>

definition py_div :: "real \<Rightarrow> real \<Rightarrow> error + real" where
  "py_div a b = (if b = 0 then Inl ZeroDivisionError else Inr (a / b))"

text \<open>
  \<open>phys_size / x\<close>: the empty string that \<open>phys_size\<close> holds without the option
  \<open>--angular_size\<close>, or a string \<open>x\<close>, cannot be divided.
\<close>

definition size_div :: "real option \<Rightarrow> val \<Rightarrow> error + real" where
  "size_div ps x =
     (case ps of
        None \<Rightarrow> Inl TypeError
      | Some a \<Rightarrow> (case x of Str t \<Rightarrow> Inl TypeError | Num b \<Rightarrow> py_div a b))"

subsection \<open>Registration\<close>

text \<open>One turn of the loop of \<open>register_images\<close>.\<close>

definition register_image ::
  "config \<Rightarrow> npfloat \<Rightarrow> npfloat \<Rightarrow> image \<Rightarrow> session \<Rightarrow> error + session" where
  "register_image cfg lngref_input latref_input im s =
     (case get_instrument (hdr im) of
        Inl e \<Rightarrow> Inl e
      | Inr instrument \<Rightarrow>
     (case get_native_pixelscale (hdr im) instrument of
        Inl e \<Rightarrow> Inl e
      | Inr native_pixelscale \<Rightarrow>
     (case getitem (hdr im) ''BUNIT'' of
        Inl e \<Rightarrow> Inl e
      | Inr bunit \<Rightarrow>
          (let original_filename = basename (path im);
               original_directory = dirname (path im);
               new_directory = original_directory @ ''/registered/'';
               artificial_filename = new_directory @ original_filename @ ''_pixelgrid.fits'';
               registered_filename = new_directory @ original_filename @ ''_registered.fits'';
               input_directory = original_directory @ ''/converted/'';
               input_filename = input_directory @ original_filename @ ''_converted.fits'';
               d1 = (if \<not> path_exists (disk s) new_directory
                     then makedirs new_directory (disk s) else disk s)
           in (case size_div (g_phys_size cfg) native_pixelscale of
                 Inl e \<Rightarrow> Inl e
               | Inr n \<Rightarrow>
                   Inr (s\<lparr>disk := d1,
                          calls := calls s @
                            [Unlearn ''mkpattern'',
                             Mkpattern artificial_filename n n,
                             Unlearn ''ccsetwcs'',
                             Ccsetwcs artificial_filename (n / 2) (n / 2)
                               native_pixelscale native_pixelscale
                               lngref_input latref_input,
                             Unlearn ''wregister'',
                             Wregister input_filename artificial_filename
                               registered_filename False]\<rparr>))))))"

fun register_loop ::
  "config \<Rightarrow> npfloat \<Rightarrow> npfloat \<Rightarrow> image list \<Rightarrow> session \<Rightarrow> error + session" where
  "register_loop cfg lng lat [] s = Inr s"
| "register_loop cfg lng lat (im # rest) s =
     (case register_image cfg lng lat im s of
        Inl e \<Rightarrow> Inl e
      | Inr s' \<Rightarrow> register_loop cfg lng lat rest s')"

definition register_images :: "config \<Rightarrow> image list \<Rightarrow> session \<Rightarrow> error + session" where
  "register_images cfg images s =
     (case register_images_reference (g_ra_input cfg) (g_dec_input cfg) images of
        Inl e \<Rightarrow> Inl e
      | Inr (lngref_input, latref_input) \<Rightarrow>
          register_loop cfg lngref_input latref_input images s)"

subsection \<open>Convolution\<close>

text \<open>One turn of the loop of \<open>convolve_images\<close>.\<close>

definition convolve_image :: "services \<Rightarrow> real \<Rightarrow> image \<Rightarrow> session \<Rightarrow> error + session" where
  "convolve_image S fwhm_input im s =
     (case get_instrument (hdr im) of
        Inl e \<Rightarrow> Inl e
      | Inr instrument \<Rightarrow>
     (case get_native_pixelscale (hdr im) instrument of
        Inl e \<Rightarrow> Inl e
      | Inr native_pixelscale \<Rightarrow>
     (case py_number native_pixelscale of
        Inl e \<Rightarrow> Inl e
      | Inr p \<Rightarrow>
     (case py_div fwhm_input (2 * sqrt (2 * ln 2) * p) of
        Inl e \<Rightarrow> Inl e
      | Inr sigma_input \<Rightarrow>
          (let original_filename = basename (path im);
               original_directory = dirname (path im);
               new_directory = original_directory @ ''/convolved/'';
               convolved_filename = new_directory @ original_filename @ ''_convolved.fits'';
               input_directory = original_directory @ ''/registered/'';
               input_filename = input_directory @ original_filename @ ''_registered.fits'';
               d1 = (if \<not> path_exists (disk s) new_directory
                     then makedirs new_directory (disk s) else disk s)
           in (case fits_open S input_filename of
                 None \<Rightarrow> Inl IOError
               | Some (image_data, header) \<Rightarrow>
                   (let conv_result = gaussian_convolve S image_data sigma_input;
                        header' = setitem_comment header ''FWHM'' (Num fwhm_input)
                                    ''The FWHM value used in the convolution step.''
                    in Inr (s\<lparr>disk := writeto convolved_filename conv_result header' d1,
                              calls := calls s @
                                [Fits_open input_filename,
                                 Writeto convolved_filename]\<rparr>))))))))"

fun convolve_loop :: "services \<Rightarrow> real \<Rightarrow> image list \<Rightarrow> session \<Rightarrow> error + session" where
  "convolve_loop S fwhm [] s = Inr s"
| "convolve_loop S fwhm (im # rest) s =
     (case convolve_image S fwhm im s of
        Inl e \<Rightarrow> Inl e
      | Inr s' \<Rightarrow> convolve_loop S fwhm rest s')"

definition convolve_images :: "services \<Rightarrow> image list \<Rightarrow> session \<Rightarrow> error + session" where
  "convolve_images S images s =
     (case get_fwhm_value images of
        Inl e \<Rightarrow> Inl e
      | Inr fwhm_input \<Rightarrow> convolve_loop S fwhm_input images s)"

subsection \<open>The data cube\<close>

text \<open>
  The loop of \<open>create_data_cube\<close>, with the lists \<open>resampled_headers\<close> and
  \<open>resampled_images\<close> it appends to.
\<close>

fun cube_loop ::
  "services \<Rightarrow> image list \<Rightarrow> header list \<Rightarrow> pixels list \<Rightarrow> session
     \<Rightarrow> error + (header list \<times> pixels list \<times> session)" where
  "cube_loop S [] resampled_headers resampled_images s =
     Inr (resampled_headers, resampled_images, s)"
| "cube_loop S (im # rest) resampled_headers resampled_images s =
     (let original_filename = basename (path im);
          original_directory = dirname (path im);
          resampled_filename =
            original_directory @ ''/resampled/'' @ original_filename @ ''_resampled.fits''
      in (case fits_open S resampled_filename of
            None \<Rightarrow> Inl IOError
          | Some (img, header) \<Rightarrow>
              cube_loop S rest (resampled_headers @ [header]) (resampled_images @ [img])
                (s\<lparr>calls := calls s @ [Fits_open resampled_filename]\<rparr>)))"

definition create_data_cube ::
  "config \<Rightarrow> services \<Rightarrow> image list \<Rightarrow> session \<Rightarrow> error + session" where
  "create_data_cube cfg S images s =
     (let new_directory = g_directory cfg @ ''/datacube/'';
          s1 = s\<lparr>disk := create_data_cube_directory (g_directory cfg) (disk s)\<rparr>
      in (case cube_loop S images [] [] s1 of
            Inl e \<Rightarrow> Inl e
          | Inr (resampled_headers, resampled_images, s2) \<Rightarrow>
              (case resampled_headers of
                 [] \<Rightarrow> Inl IndexError
               | h0 # hs \<Rightarrow>
                   Inr (s2\<lparr>calls := calls s2 @
                          [Write_cube (new_directory @ ''/'' @ ''datacube.fits'')
                             resampled_images h0]\<rparr>))))"

subsection \<open>Resampling\<close>

text \<open>One turn of the loop of \<open>resample_images\<close>.\<close>

definition resample_image :: "image \<Rightarrow> session \<Rightarrow> session" where
  "resample_image im s =
     (let original_filename = basename (path im);
          original_directory = dirname (path im);
          new_directory = original_directory @ ''/resampled/'';
          resampled_filename = new_directory @ original_filename @ ''_resampled.fits'';
          input_directory = original_directory @ ''/convolved/'';
          input_filename = input_directory @ original_filename @ ''_convolved.fits'';
          d1 = (if \<not> path_exists (disk s) new_directory
                then makedirs new_directory (disk s) else disk s)
      in s\<lparr>disk := d1,
           calls := calls s @
             [Unlearn ''wregister'',
              Wregister input_filename ''grid_final_resample.fits'' resampled_filename True]\<rparr>)"

definition resample_images ::
  "config \<Rightarrow> services \<Rightarrow> image list \<Rightarrow> session \<Rightarrow> error + session" where
  "resample_images cfg S images s =
     (let s0 = s\<lparr>calls := calls s @ [Unlearn ''mkpattern'']\<rparr> in
      case get_fwhm_value images of
        Inl e \<Rightarrow> Inl e
      | Inr fwhm_input \<Rightarrow>
     (case size_div (g_phys_size cfg) (Num (fwhm_input / NYQUIST_SAMPLING_RATE)) of
        Inl e \<Rightarrow> Inl e
      | Inr parameter1 \<Rightarrow>
          (let parameter2 = parameter1;
               s1 = s0\<lparr>calls := calls s0 @
                      [Mkpattern ''grid_final_resample.fits'' parameter1 parameter2]\<rparr>
           in (case register_images_reference (g_ra_input cfg) (g_dec_input cfg)
                      images of
                 Inl e \<Rightarrow> Inl e
               | Inr (lngref_input, latref_input) \<Rightarrow>
                   (let s2 = s1\<lparr>calls := calls s1 @
                               [Unlearn ''ccsetwcs'',
                                Ccsetwcs ''grid_final_resample.fits''
                                  (parameter1 / 2) (parameter2 / 2)
                                  (Num (fwhm_input / NYQUIST_SAMPLING_RATE))
                                  (Num (fwhm_input / NYQUIST_SAMPLING_RATE))
                                  lngref_input latref_input]\<rparr>
                    in create_data_cube cfg S images
                         (fold resample_image images s2))))))"

subsection \<open>Spectral energy distributions\<close>

text \<open>
  The first loop of \<open>output_seds\<close>, with the lists \<open>all_image_data\<close> and \<open>wavelengths\<close>
  it appends to.
\<close>

fun seds_loop ::
  "services \<Rightarrow> image list \<Rightarrow> pixels list \<Rightarrow> val list \<Rightarrow> session
     \<Rightarrow> error + (pixels list \<times> val list \<times> session)" where
  "seds_loop S [] all_image_data wavelengths s = Inr (all_image_data, wavelengths, s)"
| "seds_loop S (im # rest) all_image_data wavelengths s =
     (let original_filename = basename (path im);
          original_directory = dirname (path im);
          new_directory = original_directory @ ''/seds/'';
          input_directory = original_directory @ ''/resampled/'';
          input_filename = input_directory @ original_filename @ ''_resampled.fits''
      in (case get_wavelength (hdr im) of
            Inl e \<Rightarrow> Inl e
          | Inr (wavelength, units) \<Rightarrow>
              (let d1 = (if \<not> path_exists (disk s) new_directory
                         then makedirs new_directory (disk s) else disk s)
               in (case fits_open S input_filename of
                     None \<Rightarrow> Inl IOError
                   | Some (image_data, header) \<Rightarrow>
                       seds_loop S rest (all_image_data @ [image_data])
                         (wavelengths @ [wavelength])
                         (s\<lparr>disk := d1, calls := calls s @ [Fits_open input_filename]\<rparr>)))))"

text \<open>
  The rows \<open>(j, k, wavelengths[i], all_image_data[i][j][k])\<close> of one image, and
  \<open>sed_data\<close>, the rows of all images in the order of the two lists.
\<close>

definition image_rows :: "val \<Rightarrow> pixels \<Rightarrow> (nat \<times> nat \<times> val \<times> real) list" where
  "image_rows wavelength image_data =
     concat (map (\<lambda>(j, line). map (\<lambda>(k, x). (j, k, wavelength, x)) (List.enumerate 0 line))
                 (List.enumerate 0 image_data))"

definition sed_data :: "val list \<Rightarrow> pixels list \<Rightarrow> (nat \<times> nat \<times> val \<times> real) list" where
  "sed_data wavelengths all_image_data =
     concat (map (\<lambda>(wavelength, image_data). image_rows wavelength image_data)
                 (zip wavelengths all_image_data))"

text \<open>
  \<open>sorted\<close> on the rows: Python compares tuples by the first component that differs;
  among header values a number is below a string, numbers by size, strings byte by
  byte. The sort is stable.
\<close>

fun str_less :: "string \<Rightarrow> string \<Rightarrow> bool" where
  "str_less [] [] = False"
| "str_less [] (d # ds) = True"
| "str_less (c # cs) [] = False"
| "str_less (c # cs) (d # ds) =
     ((of_char c :: nat) < of_char d \<or> (c = d \<and> str_less cs ds))"

fun val_less :: "val \<Rightarrow> val \<Rightarrow> bool" where
  "val_less (Num a) (Num b) = (a < b)"
| "val_less (Num a) (Str t) = True"
| "val_less (Str t) (Num b) = False"
| "val_less (Str t) (Str u) = str_less t u"

fun row_le :: "nat \<times> nat \<times> val \<times> real \<Rightarrow> nat \<times> nat \<times> val \<times> real \<Rightarrow> bool" where
  "row_le (j, k, w, x) (j', k', w', x') =
     (j < j' \<or> (j = j' \<and> (k < k' \<or> (k = k' \<and> (val_less w w' \<or> (w = w' \<and> x \<le> x'))))))"

fun insert_row ::
  "nat \<times> nat \<times> val \<times> real \<Rightarrow> (nat \<times> nat \<times> val \<times> real) list
     \<Rightarrow> (nat \<times> nat \<times> val \<times> real) list" where
  "insert_row r [] = [r]"
| "insert_row r (q # qs) = (if row_le r q then r # q # qs else q # insert_row r qs)"

definition sorted_rows ::
  "(nat \<times> nat \<times> val \<times> real) list \<Rightarrow> (nat \<times> nat \<times> val \<times> real) list" where
  "sorted_rows rows = foldr insert_row rows []"

text \<open>
  The plotting loop: figure \<open>i\<close> is drawn from the rows \<open>i * n\<close> to \<open>(i + 1) * n\<close> of the
  sorted table and saved as \<open>new_directory/x_y_sed.eps\<close>, with \<open>x\<close> and \<open>y\<close> taken from
  the first of these rows; \<open>new_directory\<close> is the value the first loop left, that of
  the last image. With no image at all the division \<open>len(data) / num_wavelengths\<close>
  ends the run.
\<close>

definition figures ::
  "string \<Rightarrow> (nat \<times> nat \<times> val \<times> real) list \<Rightarrow> nat \<Rightarrow> nat \<Rightarrow> call list" where
  "figures new_directory table num_wavelengths num_seds =
     map (\<lambda>i. case table ! (i * num_wavelengths) of
                 (x, y, w, f) \<Rightarrow> Savefig new_directory x y)
         [0..<num_seds]"

definition output_seds :: "services \<Rightarrow> image list \<Rightarrow> session \<Rightarrow> error + session" where
  "output_seds S images s =
     (let num_wavelengths = length images in
      case seds_loop S images [] [] s of
        Inl e \<Rightarrow> Inl e
      | Inr (all_image_data, wavelengths, s1) \<Rightarrow>
          (let table = sorted_rows (sed_data wavelengths all_image_data);
               s2 = s1\<lparr>calls := calls s1 @ [Savetxt ''test.out'' table]\<rparr>
           in if num_wavelengths = 0 then Inl ZeroDivisionError
              else
                (let num_seds = length table div num_wavelengths;
                     new_directory = dirname (path (last images)) @ ''/seds/''
                 in Inr (s2\<lparr>calls := calls s2 @
                           figures new_directory table num_wavelengths num_seds\<rparr>))))"

section \<open>The main program\<close>

text \<open>
  The body of the script after \<open>parse_command_line\<close>: cleanup and exit, or ingestion
  and the enabled stages in their fixed order, each on the sorted collection
  \<open>images_with_headers\<close> (whose headers the conversion stage has updated in place).
\<close>

definition main ::
  "extern \<Rightarrow> services \<Rightarrow> config \<Rightarrow> fits_file list \<Rightarrow> session \<Rightarrow> error + session" where
  "main E S cfg all_files s =
     (if do_cleanup cfg
      then Inr (s\<lparr>disk := cleanup_output_files (g_directory cfg) (disk s)\<rparr>)
      else
        (case images_with_headers E all_files of
           Inl e \<Rightarrow> Inl e
         | Inr ims \<Rightarrow>
        (case (if do_conversion cfg
               then (case convert_images E ims (disk s) of
                       Inl e \<Rightarrow> Inl e
                     | Inr (ims', w') \<Rightarrow> Inr (ims', s\<lparr>disk := w'\<rparr>))
               else Inr (ims, s)) of
           Inl e \<Rightarrow> Inl e
         | Inr (ims1, s1) \<Rightarrow>
        (case (if do_registration cfg then register_images cfg ims1 s1 else Inr s1) of
           Inl e \<Rightarrow> Inl e
         | Inr s2 \<Rightarrow>
        (case (if do_convolution cfg then convolve_images S ims1 s2 else Inr s2) of
           Inl e \<Rightarrow> Inl e
         | Inr s3 \<Rightarrow>
        (case (if do_resampling cfg then resample_images cfg S ims1 s3 else Inr s3) of
           Inl e \<Rightarrow> Inl e
         | Inr s4 \<Rightarrow>
             (if do_seds cfg then output_seds S ims1 s4 else Inr s4)))))))"

section \<open>The files a stage takes in\<close>

text \<open>
  The file of an image that a stage reads or hands to IRAF: the product of the stage
  before it, named after the image's path.
\<close>

definition registered_path :: "image \<Rightarrow> string" where
  "registered_path im =
     dirname (path im) @ ''/registered/'' @ basename (path im) @ ''_registered.fits''"

definition convolved_path :: "image \<Rightarrow> string" where
  "convolved_path im =
     dirname (path im) @ ''/convolved/'' @ basename (path im) @ ''_convolved.fits''"

definition resampled_path :: "image \<Rightarrow> string" where
  "resampled_path im =
     dirname (path im) @ ''/resampled/'' @ basename (path im) @ ''_resampled.fits''"

text \<open>
  The science files among the calls of a run, in the order of the calls: the input of
  each \<open>wregister\<close> and the path of each \<open>fits.open\<close>.
\<close>

fun science_input :: "call \<Rightarrow> string list" where
  "science_input (Wregister input_filename reference output_filename flux) = [input_filename]"
| "science_input (Fits_open p) = [p]"
| "science_input c = []"

definition science_inputs :: "call list \<Rightarrow> string list" where
  "science_inputs cs = concat (map science_input cs)"

text \<open>The array that the conversion stage appends to \<open>converted_data\<close> for an image.\<close>

definition converted_array :: "extern \<Rightarrow> image \<Rightarrow> pixels" where
  "converted_array E im =
     scale (data im)
       (projr (get_conversion_factor E (hdr im) (projr (get_instrument (hdr im)))))"

section \<open>Fixtures\<close>

definition spire_image :: "real \<Rightarrow> image" where
  "spire_image w =
     \<lparr> data = [[1]],
       hdr = [''INSTRUME'' \<mapsto> (Str ''SPIRE'', []), ''WAVELENG'' \<mapsto> (Num w, ''micron'')],
       path = ''m51/spire'' \<rparr>"

definition irac_image :: image where
  "irac_image =
     \<lparr> data = [[2]],
       hdr = [''INSTRUME'' \<mapsto> (Str ''IRAC'', []), ''PXSCAL1'' \<mapsto> (Num (- 1), []),
              ''CRVAL1'' \<mapsto> (Num 202, []), ''CRVAL2'' \<mapsto> (Num 47, [])],
       path = ''m51/irac1'' \<rparr>"

definition irac_header :: header where
  "irac_header = [''INSTRUME'' \<mapsto> (Str ''IRAC'', []), ''PXSCAL1'' \<mapsto> (Num (- 1.2), ''arcsec'')]"

definition spire_header :: header where
  "spire_header = [''INSTRUME'' \<mapsto> (Str ''SPIRE'', []), ''CDELT2'' \<mapsto> (Num (1 / 600), []),
                   ''WAVELENG'' \<mapsto> (Num 250, ''micron'')]"

definition twomass_header :: "string \<Rightarrow> header" where
  "twomass_header f = [''ORIGIN'' \<mapsto> (Str ''2MASS'', []), ''FILTER'' \<mapsto> (Str f, []),
                       ''MAGZP'' \<mapsto> (Num 20.0, [])]"

definition pacs_header :: header where
  "pacs_header = [''INSTRUME'' \<mapsto> (Str ''PACS'', []), ''BUNIT'' \<mapsto> (Str ''Jy/pixel'', [])]"

definition mips_header :: header where
  "mips_header = [''INSTRUME'' \<mapsto> (Str ''MIPS'', []), ''PLTSCALE'' \<mapsto> (Num 2.5, [])]"

definition empty_world :: world where
  "empty_world = \<lparr> converted_data = [], dirs = [], files = Map.empty \<rparr>"

definition after_resampling :: world where
  "after_resampling =
     create_data_cube_directory ''m51''
       \<lparr> converted_data = [],
         dirs = [node_of ''m51'', node_of ''m51/converted/'', node_of ''m51/resampled/''],
         files = [node_of ''m51/resampled/irac1_resampled.fits'' \<mapsto> ([[1]], Map.empty)] \<rparr>"

definition converted_path :: "image \<Rightarrow> string" where
  "converted_path im =
     dirname (path im) @ ''/converted/'' @ basename (path im) @ ''_converted.fits''"

text \<open>
  Two PACS observations, listed with the longer wavelength first and one of them with
  its wavelength in angstrom; the images they become at ingestion and after the
  conversion stage; a run with every stage enabled, in which each resampled or
  registered file that is opened holds a two-pixel image and the convolution returns
  its input.
\<close>

definition observation :: "string \<Rightarrow> real \<Rightarrow> string \<Rightarrow> fits_file" where
  "observation name w unit =
     \<lparr> file_name = name,
       primary_header = [''INSTRUME'' \<mapsto> (Str ''PACS'', []), ''WAVELENG'' \<mapsto> (Num w, unit),
                         ''CDELT2'' \<mapsto> (Num (- 1 / 1800), []),
                         ''CRVAL1'' \<mapsto> (Num 202, []), ''CRVAL2'' \<mapsto> (Num 47, [])],
       primary_data = [[1, 2]],
       extension_data = None \<rparr>"

definition observations :: "fits_file list" where
  "observations = [observation ''m51/pacs160.fits'' 160 ''micron'',
                   observation ''m51/pacs70.fits'' 700000 ''Angstrom'']"

definition observed :: "string \<Rightarrow> real \<Rightarrow> image" where
  "observed name w =
     \<lparr> data = [[1, 2]],
       hdr = [''INSTRUME'' \<mapsto> (Str ''PACS'', []), ''WAVELENG'' \<mapsto> (Num w, ''micron''),
              ''CDELT2'' \<mapsto> (Num (- 1 / 1800), []),
              ''CRVAL1'' \<mapsto> (Num 202, []), ''CRVAL2'' \<mapsto> (Num 47, [])],
       path = name \<rparr>"

definition converted :: "string \<Rightarrow> real \<Rightarrow> image" where
  "converted name w =
     (observed name w)
       \<lparr>hdr := (hdr (observed name w))
          (''BUNIT'' \<mapsto> (Str ''Jy/pixel'', []),
           ''JYPXFACT'' \<mapsto> (Num 1, ''Factor to convert original BUNIT into Jy/pixel.''))\<rparr>"

definition all_stages :: config where
  "all_stages = \<lparr> g_phys_size = Some 60, g_directory = ''m51'',
                  g_ra_input = None, g_dec_input = None,
                  do_conversion = True, do_registration = True, do_convolution = True,
                  do_resampling = True, do_seds = True, do_cleanup = False \<rparr>"

definition test_services :: services where
  "test_services = \<lparr> fits_open = (\<lambda>p. Some ([[1, 2]], Map.empty)),
                     gaussian_convolve = (\<lambda>a sigma. a) \<rparr>"

definition start :: session where
  "start = \<lparr> disk = empty_world, calls = [] \<rparr>"

section \<open>Unit normalisation\<close>

text \<open>
  C8. For a numeric wavelength \<open>w\<close> and a unit string \<open>s\<close>, \<open>wavelength_to_microns\<close>
  returns \<open>w\<close> when \<open>s\<close> is a name of the micron, \<open>w * 1e-4\<close> when \<open>s\<close> is a name of
  the angstrom, and the placeholder 1 for every other unit string; for such a unit
  string the result is 1 whatever the wavelength value is, a string included.
\<close>

theorem wavelength_to_microns_cases:
  "wavelength_to_microns E (Num w) s =
     (if s \<in> set (micron_names E) \<union> set (um_names E) then Inr w
      else if s \<in> set (angstrom_names E) then Inr (w * (1 / 10 ^ 4))
      else Inr 1)
   \<and> (s \<notin> set (micron_names E) \<union> set (um_names E) \<union> set (angstrom_names E)
        \<longrightarrow> wavelength_to_microns E v s = Inr 1)"
  by (simp add: wavelength_to_microns_def py_float_def)

theorem wavelength_to_microns_cases_witness:
  "wavelength_to_microns astropy_units (Num 24) ''micron'' = Inr 24
   \<and> wavelength_to_microns astropy_units (Num 1520) ''angstrom'' = Inr (152 / 1000)
   \<and> wavelength_to_microns astropy_units (Num 24) ''mm'' = Inr 1
   \<and> ''mm'' \<notin> set (micron_names astropy_units) \<union> set (um_names astropy_units)
          \<union> set (angstrom_names astropy_units)
   \<and> wavelength_to_microns astropy_units (Str ''r'') ''mm'' = Inr 1"
  using wavelength_to_microns_cases [of astropy_units 24 "''micron''" "Str ''r''"]
        wavelength_to_microns_cases [of astropy_units 1520 "''angstrom''" "Str ''r''"]
        wavelength_to_microns_cases [of astropy_units 24 "''mm''" "Str ''r''"]
  by (simp add: astropy_units_def)

section \<open>Common resolution lookup\<close>

lemma fold_range_acc:
  "fold (\<lambda>i rv. if py_ge i lo \<and> py_le i hi then True else rv) ws acc
     = (acc \<or> (\<exists>i \<in> set ws. py_ge i lo \<and> py_le i hi))"
  by (induction ws arbitrary: acc) auto

lemma wavelength_range_iff:
  "wavelength_range ws lo hi = (\<exists>i \<in> set ws. py_ge i lo \<and> py_le i hi)"
  by (simp add: wavelength_range_def fold_range_acc)

text \<open>
  C1, as the code has it. When the dictionary built by \<open>get_fwhm_value\<close> holds only
  SPIRE, with the wavelengths 250 and 350, the result is 30: the rule SPIRE 490--510
  (FWHM 43) matches neither wavelength, and the first rule that matches is
  SPIRE 300--400.
\<close>

theorem get_fwhm_value_spire_250_350:
  assumes "instruments_with_wavelengths imgs Map.empty = Inr d"
    and "dom d = {Str ''SPIRE''}"
    and "d (Str ''SPIRE'') = Some ws"
    and "set ws = {Num 250, Num 350}"
  shows "get_fwhm_value imgs = Inr 30"
proof -
  have "Str ''MIPS'' \<notin> dom d" and "Str ''PACS'' \<notin> dom d"
    using assms(2) by simp_all
  then have m: "d (Str ''MIPS'') = None" and p: "d (Str ''PACS'') = None"
    by (simp_all add: domIff)
  have r1: "\<not> wavelength_range ws 490 510"
    using assms(4) by (simp add: wavelength_range_iff py_ge_def py_le_def)
  have r2: "wavelength_range ws 300 400"
    using assms(4) by (simp add: wavelength_range_iff py_ge_def py_le_def)
  show ?thesis
    using assms(1,3) m p r1 r2 by (simp add: get_fwhm_value_def covers_def)
qed

theorem get_fwhm_value_spire_250_350_witness:
  "get_fwhm_value [spire_image 250, spire_image 350] = Inr 30"
proof -
  let ?d = "[Str ''SPIRE'' \<mapsto> [Num 250, Num 350]]"
  have a: "instruments_with_wavelengths [spire_image 250, spire_image 350] Map.empty = Inr ?d"
    by (simp add: spire_image_def get_instrument_def get_wavelength_def)
  have b: "dom ?d = {Str ''SPIRE''}" by simp
  have c: "?d (Str ''SPIRE'') = Some [Num 250, Num 350]" by simp
  have e: "set [Num 250, Num 350] = {Num 250, Num 350 :: val}" by simp
  show ?thesis by (rule get_fwhm_value_spire_250_350 [OF a b c e])
qed

text \<open>
  The SPIRE-only set with the wavelengths 250 and 350 does not yield 43.
\<close>

theorem get_fwhm_value_spire_counterexample:
  "instruments_with_wavelengths [spire_image 250, spire_image 350] Map.empty
     = Inr [Str ''SPIRE'' \<mapsto> [Num 250, Num 350]]
   \<and> get_fwhm_value [spire_image 250, spire_image 350] \<noteq> Inr 43"
  by (simp add: get_fwhm_value_def spire_image_def get_instrument_def get_wavelength_def
      covers_def wavelength_range_def py_ge_def py_le_def)

section \<open>Reference sky position without a Herschel image\<close>

lemma herschel_values_none:
  "\<forall>im \<in> set imgs. \<exists>v. get_instrument (hdr im) = Inr v \<and> v \<noteq> Str ''PACS'' \<and> v \<noteq> Str ''SPIRE''
   \<Longrightarrow> herschel_values imgs keyword vals = Inr vals"
  by (induction imgs arbitrary: vals) auto

text \<open>
  C2, as the code has it. With no RA/Dec override and a collection in which every
  image resolves to an instrument other than PACS and SPIRE, \<open>get_herschel_mean\<close>
  hands the empty list to \<open>numpy.mean\<close> and returns its nan; the head of
  \<open>register_images\<close> takes nan for both reference coordinates. For such a run the
  computation of the reference position returns normally, with that value.
\<close>

theorem reference_without_herschel:
  assumes "\<forall>im \<in> set imgs. \<exists>v. get_instrument (hdr im) = Inr v
             \<and> v \<noteq> Str ''PACS'' \<and> v \<noteq> Str ''SPIRE''"
  shows "get_herschel_mean imgs keyword = Inr NaN
         \<and> register_images_reference None None imgs = Inr (NaN, NaN)"
  using herschel_values_none [OF assms]
  by (simp add: get_herschel_mean_def register_images_reference_def np_mean_def)

theorem reference_without_herschel_witness:
  "get_instrument (hdr irac_image) = Inr (Str ''IRAC'')
   \<and> get_herschel_mean [irac_image] ''CRVAL1'' = Inr NaN
   \<and> register_images_reference None None [irac_image] = Inr (NaN, NaN)"
proof -
  have a: "\<forall>im \<in> set [irac_image]. \<exists>v. get_instrument (hdr im) = Inr v
             \<and> v \<noteq> Str ''PACS'' \<and> v \<noteq> Str ''SPIRE''"
    by (simp add: irac_image_def get_instrument_def)
  show ?thesis
    using reference_without_herschel [OF a, of "''CRVAL1''"]
    by (simp add: irac_image_def get_instrument_def)
qed

text \<open>
  A run on one IRAC image with no override: the reference position is computed
  without any error.
\<close>

theorem reference_without_herschel_counterexample:
  "get_instrument (hdr irac_image) = Inr (Str ''IRAC'')
   \<and> \<not> isl (register_images_reference None None [irac_image])"
  by (simp add: register_images_reference_def get_herschel_mean_def np_mean_def
      irac_image_def get_instrument_def)

section \<open>Instrument resolution\<close>

text \<open>
  With none of the three keywords in the header, \<open>get_instrument\<close> leaves the run.
\<close>

lemma get_instrument_no_keys:
  "h ''INSTRUME'' = None \<Longrightarrow> h ''INF0001'' = None \<Longrightarrow> h ''ORIGIN'' = None
   \<Longrightarrow> get_instrument h = Inl SysExit"
  by (simp add: get_instrument_def)

text \<open>
  C4 on the code. A header whose mission keyword \<open>INF0001\<close> is present but does not
  contain \<open>galex\<close> determines no instrument, yet \<open>get_instrument\<close> returns the empty
  string it started from instead of leaving the run.
\<close>

theorem get_instrument_unmatched_mission:
  "get_instrument [''INF0001'' \<mapsto> (Str ''sdss'', [])] = Inr (Str [])"
  by (simp add: get_instrument_def py_in_def)

text \<open>
  The same branch also keeps the origin keyword from being looked at.
\<close>

lemma get_instrument_mission_hides_origin:
  "get_instrument [''INF0001'' \<mapsto> (Str ''sdss'', []), ''ORIGIN'' \<mapsto> (Str ''2MASS'', [])]
     = Inr (Str [])"
  by (simp add: get_instrument_def py_in_def)

section \<open>Conversion factors\<close>

text \<open>
  C5. The GALEX branch selects the constant by a strict comparison of the wavelength
  in angstrom with 2000: \<open>f_lambda_con\<close> is 1.40e-15 exactly when the wavelength is
  below 2000 and 2.06e-16 otherwise, so 2.06e-16 at exactly 2000; and for a GALEX
  image whose \<open>WAVELENG\<close> card holds the number \<open>w\<close> (micron) the factor is
  \<open>JY_CONVERSION * f_lambda_con a * a^2 / c\<close> with \<open>a\<close> the wavelength that astropy's
  conversion of \<open>w\<close> into angstrom returns.
\<close>

theorem galex_f_lambda:
  "(f_lambda_con a = 1.40 * (1 / 10 ^ 15) \<longleftrightarrow> a < 2000)
   \<and> (f_lambda_con a = 2.06 * (1 / 10 ^ 16) \<longleftrightarrow> \<not> a < 2000)
   \<and> f_lambda_con 2000 = 2.06 * (1 / 10 ^ 16)
   \<and> (h ''WAVELENG'' = Some (Num w, c) \<longrightarrow>
        get_conversion_factor E h (Str ''GALEX'') =
          Inr (JY_CONVERSION * f_lambda_con (um_to_angstrom E w) * (um_to_angstrom E w) ^ 2
               / c_angstrom_per_s))"
  by (simp add: get_conversion_factor_def getitem_def py_number_def Let_def f_lambda_con_def
      FUV_LAMBDA_CON_def NUV_LAMBDA_CON_def)

theorem galex_f_lambda_witness:
  "um_to_angstrom astropy_units 0.125 = 1250 - 1 / 2 ^ 42
   \<and> get_conversion_factor astropy_units [''WAVELENG'' \<mapsto> (Num 0.125, ''micron'')] (Str ''GALEX'')
       = Inr (JY_CONVERSION * (1.40 * (1 / 10 ^ 15)) * (1250 - 1 / 2 ^ 42) ^ 2
              / c_angstrom_per_s)
   \<and> um_to_angstrom astropy_units 0.25 = 2500 - 1 / 2 ^ 41
   \<and> get_conversion_factor astropy_units [''WAVELENG'' \<mapsto> (Num 0.25, ''micron'')] (Str ''GALEX'')
       = Inr (JY_CONVERSION * (2.06 * (1 / 10 ^ 16)) * (2500 - 1 / 2 ^ 41) ^ 2
              / c_angstrom_per_s)"
proof -
  have a: "um_to_angstrom astropy_units 0.125 = 1250 - 1 / 2 ^ 42"
    and b: "um_to_angstrom astropy_units 0.25 = 2500 - 1 / 2 ^ 41"
    by (simp_all add: astropy_units_def)
  have "(1250 - 1 / 2 ^ 42 :: real) < 2000" by simp
  then have fa: "f_lambda_con (1250 - 1 / 2 ^ 42) = 1.40 * (1 / 10 ^ 15)"
    using galex_f_lambda [of "1250 - 1 / 2 ^ 42"] by blast
  have "\<not> (2500 - 1 / 2 ^ 41 :: real) < 2000" by simp
  then have fb: "f_lambda_con (2500 - 1 / 2 ^ 41) = 2.06 * (1 / 10 ^ 16)"
    using galex_f_lambda [of "2500 - 1 / 2 ^ 41"] by blast
  have ha: "[''WAVELENG'' \<mapsto> (Num 0.125, ''micron'')] ''WAVELENG'' = Some (Num 0.125, ''micron'')"
    and hb: "[''WAVELENG'' \<mapsto> (Num 0.25, ''micron'')] ''WAVELENG'' = Some (Num 0.25, ''micron'')"
    by simp_all
  have ta: "get_conversion_factor astropy_units [''WAVELENG'' \<mapsto> (Num 0.125, ''micron'')]
              (Str ''GALEX'')
            = Inr (JY_CONVERSION * f_lambda_con (um_to_angstrom astropy_units 0.125)
                   * (um_to_angstrom astropy_units 0.125) ^ 2 / c_angstrom_per_s)"
    using galex_f_lambda
            [where h = "[''WAVELENG'' \<mapsto> (Num 0.125, ''micron'')]" and w = "0.125"
               and c = "''micron''" and E = astropy_units] ha
    by blast
  have tb: "get_conversion_factor astropy_units [''WAVELENG'' \<mapsto> (Num 0.25, ''micron'')]
              (Str ''GALEX'')
            = Inr (JY_CONVERSION * f_lambda_con (um_to_angstrom astropy_units 0.25)
                   * (um_to_angstrom astropy_units 0.25) ^ 2 / c_angstrom_per_s)"
    using galex_f_lambda
            [where h = "[''WAVELENG'' \<mapsto> (Num 0.25, ''micron'')]" and w = "0.25"
               and c = "''micron''" and E = astropy_units] hb
    by blast
  show ?thesis
    unfolding ta tb a b fa fb by (intro conjI refl)
qed

text \<open>
  C6. The calibration formulas on the literal fixtures: IRAC at pixel scale 1.2,
  SPIRE at wavelength 250 and pixel scale 6 arcsec, 2MASS with filter \<open>j\<close> and
  \<open>MAGZP\<close> 20.0, PACS, and MIPS with the formula of IRAC at any pixel scale \<open>p\<close>.
\<close>

theorem conversion_factor_fixtures:
  "(get_native_pixelscale h1 (Str ''IRAC'') = Inr (Num 1.2)
      \<longrightarrow> get_conversion_factor E h1 (Str ''IRAC'') = Inr (2.3504 * (1 / 10 ^ 5) * 1.2 ^ 2))
   \<and> (get_native_pixelscale h2 (Str ''SPIRE'') = Inr (Num 6) \<and> h2 ''WAVELENG'' = Some (Num 250, c2)
      \<longrightarrow> get_conversion_factor E h2 (Str ''SPIRE'') = Inr (36 / 423))
   \<and> (h3 ''FILTER'' = Some (Str ''j'', c3) \<and> h3 ''MAGZP'' = Some (Num 20.0, c3')
      \<longrightarrow> get_conversion_factor E h3 (Str ''2MASS'') = Inr (1594 * (1 / 10 ^ 8)))
   \<and> (h4 ''BUNIT'' = None \<or> (\<exists>s c4. h4 ''BUNIT'' = Some (Str s, c4))
      \<longrightarrow> get_conversion_factor E h4 (Str ''PACS'') = Inr 1.0)
   \<and> (get_native_pixelscale h5 (Str ''MIPS'') = Inr (Num p)
      \<longrightarrow> get_conversion_factor E h5 (Str ''MIPS'') = Inr (2.3504 * (1 / 10 ^ 5) * p ^ 2))
   \<and> (get_native_pixelscale h6 (Str ''IRAC'') = Inr (Num p)
      \<longrightarrow> get_conversion_factor E h6 (Str ''IRAC'') = Inr (2.3504 * (1 / 10 ^ 5) * p ^ 2))"
proof -
  have irac: "get_conversion_factor E h (Str ''IRAC'') = Inr (2.3504 * (1 / 10 ^ 5) * q ^ 2)"
    if "get_native_pixelscale h (Str ''IRAC'') = Inr (Num q)" for h q
    using that
    by (simp add: get_conversion_factor_def py_number_def MJY_PER_SR_TO_JY_PER_PIXEL_def)
  have mips: "get_conversion_factor E h (Str ''MIPS'') = Inr (2.3504 * (1 / 10 ^ 5) * q ^ 2)"
    if "get_native_pixelscale h (Str ''MIPS'') = Inr (Num q)" for h q
    using that
    by (simp add: get_conversion_factor_def py_number_def MJY_PER_SR_TO_JY_PER_PIXEL_def)
  have spire: "get_conversion_factor E h2 (Str ''SPIRE'') = Inr (36 / 423)"
    if "get_native_pixelscale h2 (Str ''SPIRE'') = Inr (Num 6)"
      and "h2 ''WAVELENG'' = Some (Num 250, c2)"
    using that
    by (simp add: get_conversion_factor_def py_number_def getitem_def S250_BEAM_AREA_def)
  have pw: "(10::real) powr (- 8) = 1 / 10 ^ 8"
    by (simp add: powr_minus_divide)
  have twomass: "get_conversion_factor E h3 (Str ''2MASS'') = Inr (1594 * (1 / 10 ^ 8))"
    if "h3 ''FILTER'' = Some (Str ''j'', c3)" and "h3 ''MAGZP'' = Some (Num 20.0, c3')"
    using that pw
    by (simp add: get_conversion_factor_def py_number_def getitem_def FVEGA_J_def)
  have pacs: "get_conversion_factor E h4 (Str ''PACS'') = Inr 1.0"
    if "h4 ''BUNIT'' = None \<or> (\<exists>s c4. h4 ''BUNIT'' = Some (Str s, c4))"
    using that
    by (auto simp add: get_conversion_factor_def py_lower_def)
  show ?thesis
    using irac mips spire twomass pacs by blast
qed

theorem conversion_factor_fixtures_witness:
  "get_native_pixelscale irac_header (Str ''IRAC'') = Inr (Num 1.2)
   \<and> get_conversion_factor astropy_units irac_header (Str ''IRAC'') = Inr (2.3504 * (1 / 10 ^ 5) * 1.2 ^ 2)
   \<and> get_native_pixelscale spire_header (Str ''SPIRE'') = Inr (Num 6)
   \<and> get_conversion_factor astropy_units spire_header (Str ''SPIRE'') = Inr (36 / 423)
   \<and> get_conversion_factor astropy_units (twomass_header ''j'') (Str ''2MASS'') = Inr (1594 * (1 / 10 ^ 8))
   \<and> get_conversion_factor astropy_units pacs_header (Str ''PACS'') = Inr 1
   \<and> get_native_pixelscale mips_header (Str ''MIPS'') = Inr (Num 2.5)
   \<and> get_conversion_factor astropy_units mips_header (Str ''MIPS'') = Inr (2.3504 * (1 / 10 ^ 5) * 2.5 ^ 2)"
proof -
  have a: "get_native_pixelscale irac_header (Str ''IRAC'') = Inr (Num 1.2)"
    by (simp add: get_native_pixelscale_def irac_header_def getitem_def py_abs_def)
  have b: "get_native_pixelscale spire_header (Str ''SPIRE'') = Inr (Num 6)"
    by (simp add: get_native_pixelscale_def spire_header_def getitem_def py_abs_def
        deg_to_arcsec_def)
  have b': "spire_header ''WAVELENG'' = Some (Num 250, ''micron'')"
    by (simp add: spire_header_def)
  have c: "twomass_header ''j'' ''FILTER'' = Some (Str ''j'', [])"
    and c': "twomass_header ''j'' ''MAGZP'' = Some (Num 20.0, [])"
    by (simp_all add: twomass_header_def)
  have d: "pacs_header ''BUNIT'' = None
           \<or> (\<exists>s c4. pacs_header ''BUNIT'' = Some (Str s, c4))"
    by (simp add: pacs_header_def)
  have e: "get_native_pixelscale mips_header (Str ''MIPS'') = Inr (Num 2.5)"
    by (simp add: get_native_pixelscale_def mips_header_def getitem_def)
  show ?thesis
    using conversion_factor_fixtures
      [where ?h1.0 = irac_header and ?h2.0 = spire_header and ?c2.0 = "''micron''"
         and ?h3.0 = "twomass_header ''j''" and ?c3.0 = "[]" and c3' = "[]"
         and ?h4.0 = pacs_header and ?h5.0 = mips_header and p = "2.5"
         and ?h6.0 = irac_header and E = astropy_units]
      a b b' c c' d e
    by simp
qed

section \<open>The 2MASS filter name\<close>

lemma lower_upper_j: "map lower_char ''J'' = ''j''"
  by (simp add: lower_char_def)

text \<open>
  C10. For a 2MASS header whose \<open>FILTER\<close> value is not exactly \<open>j\<close>, \<open>h\<close> or \<open>k\<close> in
  lower case (and whose \<open>MAGZP\<close> is a number), the conversion factor is 0; the
  wavelength resolution lowers the same filter name before comparing it, so \<open>J\<close>,
  \<open>H\<close> and \<open>K\<close> resolve to the 2MASS wavelengths there.
\<close>

theorem twomass_filter_case:
  "(h ''FILTER'' = Some (f, c) \<and> f \<noteq> Str ''j'' \<and> f \<noteq> Str ''h'' \<and> f \<noteq> Str ''k''
      \<and> h ''MAGZP'' = Some (Num z, c')
      \<longrightarrow> get_conversion_factor E h (Str ''2MASS'') = Inr 0)
   \<and> (g ''WAVELENG'' = None \<and> g ''WAVELNTH'' = None \<and> g ''FILTER'' = Some (Str s, d)
      \<and> get_instrument g = Inr (Str ''2MASS'')
      \<longrightarrow> get_wavelength g =
            Inr (if map lower_char s = ''j'' then Num 1.2409
                 else if map lower_char s = ''h'' then Num 1.6514
                 else if map lower_char s = ''k'' then Num 2.1656
                 else Str s, ''micron''))"
  by (simp add: get_conversion_factor_def getitem_def py_number_def get_wavelength_def
      py_lower_def WAVELENGTH_2MASS_J_def WAVELENGTH_2MASS_H_def WAVELENGTH_2MASS_KS_def)

theorem twomass_filter_case_witness:
  "get_instrument (twomass_header ''J'') = Inr (Str ''2MASS'')
   \<and> get_conversion_factor astropy_units (twomass_header ''J'') (Str ''2MASS'') = Inr 0
   \<and> get_wavelength (twomass_header ''J'') = Inr (Num 1.2409, ''micron'')"
proof -
  have i: "get_instrument (twomass_header ''J'') = Inr (Str ''2MASS'')"
    by (simp add: get_instrument_def twomass_header_def py_in_def)
  have a: "twomass_header ''J'' ''FILTER'' = Some (Str ''J'', [])
           \<and> Str ''J'' \<noteq> Str ''j'' \<and> Str ''J'' \<noteq> Str ''h'' \<and> Str ''J'' \<noteq> Str ''k''
           \<and> twomass_header ''J'' ''MAGZP'' = Some (Num 20.0, [])"
    by (simp add: twomass_header_def)
  have b: "twomass_header ''J'' ''WAVELENG'' = None \<and> twomass_header ''J'' ''WAVELNTH'' = None
           \<and> twomass_header ''J'' ''FILTER'' = Some (Str ''J'', [])"
    by (simp add: twomass_header_def)
  show ?thesis
    using twomass_filter_case
      [where h = "twomass_header ''J''" and f = "Str ''J''" and c = "[]" and z = "20.0"
         and c' = "[]" and g = "twomass_header ''J''" and s = "''J''" and d = "[]"
         and E = astropy_units]
      i a b lower_upper_j
    by simp
qed

section \<open>Cleanup and the stage directories\<close>

lemma beneath_refl: "beneath n n"
  by (simp add: beneath_def)

lemma rmtree_dirs_subset: "set (dirs (rmtree p w)) \<subseteq> set (dirs w)"
  by (auto simp: rmtree_def)

lemma rmtree_removes: "node_of p \<notin> set (dirs (rmtree p w))"
  by (simp add: rmtree_def beneath_refl)

lemma cleanup_step_subset: "set (dirs (cleanup_step directory d w)) \<subseteq> set (dirs w)"
  using rmtree_dirs_subset by (auto simp: cleanup_step_def Let_def)

lemma cleanup_step_removes:
  "node_of (directory @ ''/'' @ d) \<notin> set (dirs (cleanup_step directory d w))"
  using rmtree_removes by (auto simp: cleanup_step_def Let_def isdir_def)

lemma cleanup_fold_subset:
  "set (dirs (fold (cleanup_step directory) ds w)) \<subseteq> set (dirs w)"
proof (induction ds arbitrary: w)
  case Nil
  then show ?case by simp
next
  case (Cons d ds)
  have "set (dirs (fold (cleanup_step directory) ds (cleanup_step directory d w)))
          \<subseteq> set (dirs (cleanup_step directory d w))"
    by (rule Cons.IH)
  then show ?case using cleanup_step_subset [of directory d w] by auto
qed

lemma cleanup_fold_removes:
  "d \<in> set ds \<Longrightarrow>
   node_of (directory @ ''/'' @ d) \<notin> set (dirs (fold (cleanup_step directory) ds w))"
proof (induction ds arbitrary: w)
  case Nil
  then show ?case by simp
next
  case (Cons x ds)
  show ?case
  proof (cases "d = x")
    case True
    then show ?thesis
      using cleanup_fold_subset [of directory ds "cleanup_step directory x w"]
        cleanup_step_removes [of directory x w]
      by auto
  next
    case False
    then have "d \<in> set ds" using Cons.prems by simp
    then show ?thesis using Cons.IH by simp
  qed
qed

text \<open>
  What cleanup does achieve: for every input directory and every state of the file
  system, none of \<open>converted/\<close>, \<open>registered/\<close>, \<open>convolved/\<close>, \<open>resampled/\<close> and
  \<open>seds/\<close> is left.
\<close>

lemma cleanup_removes_listed:
  "d \<in> {''converted'', ''registered'', ''convolved'', ''resampled'', ''seds''}
   \<Longrightarrow> \<not> isdir (cleanup_output_files directory w) (directory @ ''/'' @ d)"
  unfolding cleanup_output_files_def isdir_def
  by (rule cleanup_fold_removes) simp

text \<open>
  C3 on the code. After the resampling stage has run, \<open>create_data_cube\<close> has made
  \<open>datacube/\<close> under the input directory; \<open>cleanup_output_files\<close> does not have it in
  its list, and of the six stage directories \<open>datacube/\<close> is still there afterwards.
\<close>

theorem cleanup_leaves_datacube:
  "isdir after_resampling ''m51/datacube''
   \<and> isdir (cleanup_output_files ''m51'' after_resampling) ''m51/datacube''
   \<and> filter (\<lambda>d. isdir (cleanup_output_files ''m51'' after_resampling) (''m51'' @ ''/'' @ d))
        stage_directories = [''datacube'']"
  by (simp add: cleanup_output_files_def cleanup_step_def after_resampling_def
      create_data_cube_directory_def path_exists_def makedirs_def isdir_def rmtree_def
      node_of_def beneath_def stage_directories_def)

section \<open>The conversion stage\<close>

text \<open>
  C9, as the code has it. One turn of \<open>convert_images\<close> leaves the pixel array of the
  record as it was; the scaled copy is appended to \<open>converted_data\<close> and written, with
  the updated header, to the converted file. In the header of the record the card
  \<open>BUNIT\<close> is set to \<open>Jy/pixel\<close> and the card \<open>JYPXFACT\<close> to the factor, and nothing
  else changes.
\<close>

theorem convert_image_effect:
  assumes "convert_image E im w = Inr (im', w')"
  shows "\<exists>instrument f.
           get_instrument (hdr im) = Inr instrument
         \<and> get_conversion_factor E (hdr im) instrument = Inr f
         \<and> data im' = data im \<and> path im' = path im
         \<and> hdr im' = (hdr im)
              (''BUNIT'' \<mapsto> (Str ''Jy/pixel'',
                              case hdr im ''BUNIT'' of None \<Rightarrow> [] | Some (v0, c) \<Rightarrow> c),
               ''JYPXFACT'' \<mapsto> (Num f, ''Factor to convert original BUNIT into Jy/pixel.''))
         \<and> converted_data w' = converted_data w @ [scale (data im) f]
         \<and> files w' (node_of (converted_path im)) = Some (scale (data im) f, hdr im')"
  using assms
  by (auto simp: convert_image_def Let_def setitem_def setitem_comment_def writeto_def
      makedirs_def converted_path_def split: sum.splits)

theorem convert_image_effect_witness:
  "convert_image astropy_units irac_image empty_world =
     Inr (irac_image
            \<lparr>hdr := (hdr irac_image)
               (''BUNIT'' \<mapsto> (Str ''Jy/pixel'', []),
                ''JYPXFACT'' \<mapsto> (Num (2.3504 * (1 / 10 ^ 5)),
                                  ''Factor to convert original BUNIT into Jy/pixel.''))\<rparr>,
          \<lparr> converted_data = [[[2 * (2.3504 * (1 / 10 ^ 5))]]],
            dirs = [node_of ''m51/converted/''],
            files = [node_of ''m51/converted/irac1_converted.fits'' \<mapsto>
                       ([[2 * (2.3504 * (1 / 10 ^ 5))]],
                        (hdr irac_image)
                          (''BUNIT'' \<mapsto> (Str ''Jy/pixel'', []),
                           ''JYPXFACT'' \<mapsto> (Num (2.3504 * (1 / 10 ^ 5)),
                              ''Factor to convert original BUNIT into Jy/pixel.'')))] \<rparr>)"
proof -
  have r: "convert_image astropy_units irac_image empty_world =
     Inr (irac_image
            \<lparr>hdr := (hdr irac_image)
               (''BUNIT'' \<mapsto> (Str ''Jy/pixel'', []),
                ''JYPXFACT'' \<mapsto> (Num (2.3504 * (1 / 10 ^ 5)),
                                  ''Factor to convert original BUNIT into Jy/pixel.''))\<rparr>,
          \<lparr> converted_data = [[[2 * (2.3504 * (1 / 10 ^ 5))]]],
            dirs = [node_of ''m51/converted/''],
            files = [node_of ''m51/converted/irac1_converted.fits'' \<mapsto>
                       ([[2 * (2.3504 * (1 / 10 ^ 5))]],
                        (hdr irac_image)
                          (''BUNIT'' \<mapsto> (Str ''Jy/pixel'', []),
                           ''JYPXFACT'' \<mapsto> (Num (2.3504 * (1 / 10 ^ 5)),
                              ''Factor to convert original BUNIT into Jy/pixel.'')))] \<rparr>)"
    by (simp add: convert_image_def irac_image_def empty_world_def get_instrument_def
        get_conversion_factor_def get_native_pixelscale_def getitem_def py_abs_def py_number_def
        MJY_PER_SR_TO_JY_PER_PIXEL_def Let_def dirname_def basename_def py_split_def
        path_exists_def makedirs_def writeto_def setitem_def setitem_comment_def scale_def
        node_of_def)
  show ?thesis using convert_image_effect [OF r] r by simp
qed

text \<open>
  An IRAC record with the pixel 2 and the factor 2.3504e-5: after the conversion the
  record still holds the pixel 2, not 4.7008e-5.
\<close>

theorem convert_image_counterexample:
  "get_conversion_factor astropy_units (hdr irac_image) (Str ''IRAC'') = Inr (2.3504 * (1 / 10 ^ 5))
   \<and> \<not> isl (convert_image astropy_units irac_image empty_world)
   \<and> data (fst (projr (convert_image astropy_units irac_image empty_world))) = [[2]]
   \<and> scale (data irac_image) (2.3504 * (1 / 10 ^ 5)) = [[4.7008 * (1 / 10 ^ 5)]]"
  by (simp add: convert_image_def irac_image_def empty_world_def get_instrument_def
      get_conversion_factor_def get_native_pixelscale_def getitem_def py_abs_def py_number_def
      MJY_PER_SR_TO_JY_PER_PIXEL_def Let_def scale_def)

lemma convert_image_waveleng:
  "convert_image E im w = Inr (im', w') \<Longrightarrow> waveleng im' = waveleng im \<and> data im' = data im"
  by (auto simp: convert_image_def Let_def setitem_def setitem_comment_def waveleng_def
      split: sum.splits)

lemma convert_images_waveleng:
  "convert_images E ims w = Inr (ims', w')
   \<Longrightarrow> map waveleng ims' = map waveleng ims \<and> map data ims' = map data ims"
proof (induction ims arbitrary: w ims' w')
  case Nil
  then show ?case by simp
next
  case (Cons im ims)
  from Cons.prems obtain im1 w1 rest where
    a: "convert_image E im w = Inr (im1, w1)"
    and b: "convert_images E ims w1 = Inr (rest, w')"
    and c: "ims' = im1 # rest"
    by (auto split: sum.splits)
  show ?case
    using convert_image_waveleng [OF a] Cons.IH [OF b] c by simp
qed

section \<open>The order of the working collection\<close>

lemma read_file_waveleng:
  "read_file E f = Inr im \<Longrightarrow> \<exists>r. hdr im ''WAVELENG'' = Some (Num r, ''micron'')"
  by (auto simp: read_file_def Let_def setitem_comment_def split: sum.splits if_splits option.splits)

lemma read_files_waveleng:
  "read_files E fs = Inr ims
   \<Longrightarrow> \<forall>im \<in> set ims. \<exists>r. hdr im ''WAVELENG'' = Some (Num r, ''micron'')"
proof (induction fs arbitrary: ims)
  case Nil
  then show ?case by simp
next
  case (Cons f fs)
  from Cons.prems obtain im rest where
    a: "read_file E f = Inr im" and b: "read_files E fs = Inr rest" and c: "ims = im # rest"
    by (auto split: sum.splits)
  show ?case using read_file_waveleng [OF a] Cons.IH [OF b] c by simp
qed

lemma read_files_map:
  "read_files E fs = Inr ims \<Longrightarrow> ims = map (\<lambda>f. projr (read_file E f)) fs
     \<and> (\<forall>f \<in> set fs. \<not> isl (read_file E f))"
proof (induction fs arbitrary: ims)
  case Nil
  then show ?case by simp
next
  case (Cons f fs)
  from Cons.prems obtain im rest where
    a: "read_file E f = Inr im" and b: "read_files E fs = Inr rest" and c: "ims = im # rest"
    by (auto split: sum.splits)
  show ?case using a Cons.IH [OF b] c by simp
qed

lemma read_files_total:
  "\<forall>f \<in> set fs. \<not> isl (read_file E f)
   \<Longrightarrow> read_files E fs = Inr (map (\<lambda>f. projr (read_file E f)) fs)"
proof (induction fs)
  case Nil
  then show ?case by simp
next
  case (Cons f fs)
  then have "\<not> isl (read_file E f)" by simp
  then obtain im where "read_file E f = Inr im" by (cases "read_file E f") auto
  then show ?case using Cons by simp
qed

lemma sorted_same_mset:
  fixes xs ys :: "real list"
  assumes "mset xs = mset ys" "sorted xs" "sorted ys"
  shows "xs = ys"
  using assms properties_for_sort by metis

subsection \<open>The order in which the stages take the images\<close>

lemma science_inputs_append:
  "science_inputs (a @ b) = science_inputs a @ science_inputs b"
  by (simp add: science_inputs_def)

lemma convert_image_order:
  "convert_image E im w = Inr (im', w')
   \<Longrightarrow> path im' = path im \<and> converted_data w' = converted_data w @ [converted_array E im]"
  by (auto simp: convert_image_def Let_def writeto_def makedirs_def converted_array_def
      split: sum.splits)

lemma convert_images_order:
  "convert_images E ims w = Inr (ims', w')
   \<Longrightarrow> map path ims' = map path ims
       \<and> converted_data w' = converted_data w @ map (converted_array E) ims"
proof (induction ims arbitrary: w ims' w')
  case Nil
  then show ?case by simp
next
  case (Cons im ims)
  from Cons.prems obtain im1 w1 rest where
    a: "convert_image E im w = Inr (im1, w1)"
    and b: "convert_images E ims w1 = Inr (rest, w')"
    and c: "ims' = im1 # rest"
    by (auto split: sum.splits)
  show ?case
    using convert_image_order [OF a] Cons.IH [OF b] c by simp
qed

lemma register_image_order:
  "register_image cfg lng lat im s = Inr s'
   \<Longrightarrow> science_inputs (calls s') = science_inputs (calls s) @ [converted_path im]"
  by (auto simp: register_image_def Let_def science_inputs_def converted_path_def
      split: sum.splits)

lemma register_loop_order:
  "register_loop cfg lng lat ims s = Inr s'
   \<Longrightarrow> science_inputs (calls s') = science_inputs (calls s) @ map converted_path ims"
proof (induction ims arbitrary: s)
  case Nil
  then show ?case by simp
next
  case (Cons im ims)
  from Cons.prems obtain s1 where
    a: "register_image cfg lng lat im s = Inr s1"
    and b: "register_loop cfg lng lat ims s1 = Inr s'"
    by (auto split: sum.splits)
  show ?case
    using register_image_order [OF a] Cons.IH [OF b] by simp
qed

lemma register_images_order:
  "register_images cfg ims s = Inr s'
   \<Longrightarrow> science_inputs (calls s') = science_inputs (calls s) @ map converted_path ims"
  by (auto simp: register_images_def split: sum.splits dest: register_loop_order)

lemma convolve_image_order:
  "convolve_image S fwhm im s = Inr s'
   \<Longrightarrow> science_inputs (calls s') = science_inputs (calls s) @ [registered_path im]"
  by (auto simp: convolve_image_def Let_def science_inputs_def registered_path_def
      split: sum.splits option.splits)

lemma convolve_loop_order:
  "convolve_loop S fwhm ims s = Inr s'
   \<Longrightarrow> science_inputs (calls s') = science_inputs (calls s) @ map registered_path ims"
proof (induction ims arbitrary: s)
  case Nil
  then show ?case by simp
next
  case (Cons im ims)
  from Cons.prems obtain s1 where
    a: "convolve_image S fwhm im s = Inr s1"
    and b: "convolve_loop S fwhm ims s1 = Inr s'"
    by (auto split: sum.splits)
  show ?case
    using convolve_image_order [OF a] Cons.IH [OF b] by simp
qed

lemma convolve_images_order:
  "convolve_images S ims s = Inr s'
   \<Longrightarrow> science_inputs (calls s') = science_inputs (calls s) @ map registered_path ims"
  by (auto simp: convolve_images_def split: sum.splits dest: convolve_loop_order)

lemma resample_image_order:
  "science_inputs (calls (resample_image im s))
     = science_inputs (calls s) @ [convolved_path im]"
  by (simp add: resample_image_def Let_def science_inputs_def convolved_path_def)

lemma resample_fold_order:
  "science_inputs (calls (fold resample_image ims s))
     = science_inputs (calls s) @ map convolved_path ims"
  by (induction ims arbitrary: s) (simp_all add: resample_image_order)

lemma cube_loop_order:
  "cube_loop S ims hs planes s = Inr (hs', planes', s')
   \<Longrightarrow> science_inputs (calls s') = science_inputs (calls s) @ map resampled_path ims"
proof (induction ims arbitrary: hs planes s)
  case Nil
  then show ?case by simp
next
  case (Cons im ims)
  from Cons.prems obtain img header where
    a: "fits_open S (resampled_path im) = Some (img, header)"
    and b: "cube_loop S ims (hs @ [header]) (planes @ [img])
              (s\<lparr>calls := calls s @ [Fits_open (resampled_path im)]\<rparr>) = Inr (hs', planes', s')"
    by (auto simp: Let_def resampled_path_def split: option.splits)
  show ?case
    using Cons.IH [OF b] by (simp add: science_inputs_def)
qed

lemma create_data_cube_order:
  "create_data_cube cfg S ims s = Inr s'
   \<Longrightarrow> science_inputs (calls s') = science_inputs (calls s) @ map resampled_path ims"
  by (auto simp: create_data_cube_def Let_def science_inputs_append
      split: sum.splits list.splits dest!: cube_loop_order)
     (simp add: science_inputs_def)

lemma resample_images_order:
  assumes "resample_images cfg S ims s = Inr s'"
  shows "science_inputs (calls s')
         = science_inputs (calls s) @ map convolved_path ims @ map resampled_path ims"
proof -
  from assms obtain s2 where
    c: "create_data_cube cfg S ims (fold resample_image ims s2) = Inr s'"
    and i: "science_inputs (calls s2) = science_inputs (calls s)"
    by (auto simp: resample_images_def Let_def science_inputs_def split: sum.splits)
  show ?thesis
    using create_data_cube_order [OF c] i by (simp add: resample_fold_order)
qed

lemma seds_loop_order:
  "seds_loop S ims planes ws s = Inr (planes', ws', s')
   \<Longrightarrow> science_inputs (calls s') = science_inputs (calls s) @ map resampled_path ims
       \<and> ws' = ws @ map (\<lambda>im. fst (projr (get_wavelength (hdr im)))) ims"
proof (induction ims arbitrary: planes ws s)
  case Nil
  then show ?case by simp
next
  case (Cons im ims)
  from Cons.prems obtain wavelength units image_data header d1 where
    w: "get_wavelength (hdr im) = Inr (wavelength, units)"
    and b: "seds_loop S ims (planes @ [image_data]) (ws @ [wavelength])
              (s\<lparr>disk := d1, calls := calls s @ [Fits_open (resampled_path im)]\<rparr>)
            = Inr (planes', ws', s')"
    by (auto simp: Let_def resampled_path_def split: sum.splits option.splits)
  show ?case
    using Cons.IH [OF b] w by (simp add: science_inputs_def)
qed

lemma figures_no_input: "science_inputs (figures d t n k) = []"
  by (induction k) (simp_all add: figures_def science_inputs_def split: prod.splits)

lemma output_seds_order:
  assumes "output_seds S ims s = Inr s'"
  shows "science_inputs (calls s') = science_inputs (calls s) @ map resampled_path ims"
proof -
  from assms obtain planes ws s1 t d k where
    l: "seds_loop S ims [] [] s = Inr (planes, ws, s1)"
    and e: "calls s' = (calls s1 @ [Savetxt ''test.out'' t]) @ figures d t (length ims) k"
    by (auto simp: output_seds_def Let_def split: sum.splits if_splits)
  have "science_inputs (calls s') = science_inputs (calls s1)"
    unfolding e science_inputs_append figures_no_input by (simp add: science_inputs_def)
  then show ?thesis
    using seds_loop_order [OF l] by simp
qed

lemma same_paths:
  assumes "map path a = map path b"
  shows "map converted_path a = map converted_path b"
    and "map registered_path a = map registered_path b"
    and "map convolved_path a = map convolved_path b"
    and "map resampled_path a = map resampled_path b"
proof -
  have c: "map (\<lambda>im. f (path im)) a = map (\<lambda>im. f (path im)) b" for f :: "string \<Rightarrow> string"
  proof -
    have "map (\<lambda>im. f (path im)) a = map f (map path a)" by (simp add: comp_def)
    also have "\<dots> = map f (map path b)" using assms by simp
    also have "\<dots> = map (\<lambda>im. f (path im)) b" by (simp add: comp_def)
    finally show ?thesis .
  qed
  show "map converted_path a = map converted_path b"
    using c [of "\<lambda>p. dirname p @ ''/converted/'' @ basename p @ ''_converted.fits''"]
    by (simp add: converted_path_def [abs_def])
  show "map registered_path a = map registered_path b"
    using c [of "\<lambda>p. dirname p @ ''/registered/'' @ basename p @ ''_registered.fits''"]
    by (simp add: registered_path_def [abs_def])
  show "map convolved_path a = map convolved_path b"
    using c [of "\<lambda>p. dirname p @ ''/convolved/'' @ basename p @ ''_convolved.fits''"]
    by (simp add: convolved_path_def [abs_def])
  show "map resampled_path a = map resampled_path b"
    using c [of "\<lambda>p. dirname p @ ''/resampled/'' @ basename p @ ''_resampled.fits''"]
    by (simp add: resampled_path_def [abs_def])
qed

lemma main_order:
  assumes i: "images_with_headers E all_files = Inr ims"
    and nc: "\<not> do_cleanup cfg"
    and m: "main E S cfg all_files s = Inr s'"
  shows "science_inputs (calls s') =
           science_inputs (calls s)
           @ (if do_registration cfg then map converted_path ims else [])
           @ (if do_convolution cfg then map registered_path ims else [])
           @ (if do_resampling cfg then map convolved_path ims @ map resampled_path ims else [])
           @ (if do_seds cfg then map resampled_path ims else [])"
proof -
  let ?c = "if do_conversion cfg
            then (case convert_images E ims (disk s) of
                    Inl e \<Rightarrow> Inl e
                  | Inr (ims', w') \<Rightarrow> Inr (ims', s\<lparr>disk := w'\<rparr>))
            else Inr (ims, s)"
  have m0: "(case ?c of
               Inl e \<Rightarrow> Inl e
             | Inr (ims1, s1) \<Rightarrow>
            (case (if do_registration cfg then register_images cfg ims1 s1 else Inr s1) of
               Inl e \<Rightarrow> Inl e
             | Inr s2 \<Rightarrow>
            (case (if do_convolution cfg then convolve_images S ims1 s2 else Inr s2) of
               Inl e \<Rightarrow> Inl e
             | Inr s3 \<Rightarrow>
            (case (if do_resampling cfg then resample_images cfg S ims1 s3 else Inr s3) of
               Inl e \<Rightarrow> Inl e
             | Inr s4 \<Rightarrow>
                 (if do_seds cfg then output_seds S ims1 s4 else Inr s4))))) = Inr s'"
    using m unfolding main_def i by (simp only: nc if_False sum.case)
  obtain ims1 s1 where c: "?c = Inr (ims1, s1)"
    using m0 by (cases ?c) auto
  let ?r = "if do_registration cfg then register_images cfg ims1 s1 else Inr s1"
  have m1: "(case ?r of
               Inl e \<Rightarrow> Inl e
             | Inr s2 \<Rightarrow>
            (case (if do_convolution cfg then convolve_images S ims1 s2 else Inr s2) of
               Inl e \<Rightarrow> Inl e
             | Inr s3 \<Rightarrow>
            (case (if do_resampling cfg then resample_images cfg S ims1 s3 else Inr s3) of
               Inl e \<Rightarrow> Inl e
             | Inr s4 \<Rightarrow>
                 (if do_seds cfg then output_seds S ims1 s4 else Inr s4)))) = Inr s'"
    using m0 unfolding c by (simp only: sum.case prod.case)
  obtain s2 where r: "?r = Inr s2"
    using m1 by (cases ?r) auto
  let ?v = "if do_convolution cfg then convolve_images S ims1 s2 else Inr s2"
  have m2: "(case ?v of
               Inl e \<Rightarrow> Inl e
             | Inr s3 \<Rightarrow>
            (case (if do_resampling cfg then resample_images cfg S ims1 s3 else Inr s3) of
               Inl e \<Rightarrow> Inl e
             | Inr s4 \<Rightarrow>
                 (if do_seds cfg then output_seds S ims1 s4 else Inr s4))) = Inr s'"
    using m1 unfolding r by (simp only: sum.case)
  obtain s3 where v: "?v = Inr s3"
    using m2 by (cases ?v) auto
  let ?p = "if do_resampling cfg then resample_images cfg S ims1 s3 else Inr s3"
  have m3: "(case ?p of
               Inl e \<Rightarrow> Inl e
             | Inr s4 \<Rightarrow>
                 (if do_seds cfg then output_seds S ims1 s4 else Inr s4)) = Inr s'"
    using m2 unfolding v by (simp only: sum.case)
  obtain s4 where p: "?p = Inr s4"
    using m3 by (cases ?p) auto
  have d: "(if do_seds cfg then output_seds S ims1 s4 else Inr s4) = Inr s'"
    using m3 unfolding p by (simp only: sum.case)
  have c1: "map path ims1 = map path ims" and c2: "calls s1 = calls s"
  proof -
    show "map path ims1 = map path ims"
    proof (cases "do_conversion cfg")
      case True
      then obtain w' where "convert_images E ims (disk s) = Inr (ims1, w')"
        using c by (cases "convert_images E ims (disk s)") auto
      then show ?thesis using convert_images_order by blast
    next
      case False
      then show ?thesis using c by simp
    qed
    show "calls s1 = calls s"
    proof (cases "do_conversion cfg")
      case True
      then obtain w' where "s1 = s\<lparr>disk := w'\<rparr>"
        using c by (cases "convert_images E ims (disk s)") auto
      then show ?thesis by simp
    next
      case False
      then show ?thesis using c by simp
    qed
  qed
  note sp = same_paths [OF c1]
  have r1: "science_inputs (calls s2) = science_inputs (calls s1)
              @ (if do_registration cfg then map converted_path ims else [])"
  proof (cases "do_registration cfg")
    case True
    then have "register_images cfg ims1 s1 = Inr s2" using r by simp
    from register_images_order [OF this] show ?thesis using True sp(1) by simp
  next
    case False
    then show ?thesis using r by simp
  qed
  have v1: "science_inputs (calls s3) = science_inputs (calls s2)
              @ (if do_convolution cfg then map registered_path ims else [])"
  proof (cases "do_convolution cfg")
    case True
    then have "convolve_images S ims1 s2 = Inr s3" using v by simp
    from convolve_images_order [OF this] show ?thesis using True sp(2) by simp
  next
    case False
    then show ?thesis using v by simp
  qed
  have p1: "science_inputs (calls s4) = science_inputs (calls s3)
              @ (if do_resampling cfg then map convolved_path ims @ map resampled_path ims
                 else [])"
  proof (cases "do_resampling cfg")
    case True
    then have "resample_images cfg S ims1 s3 = Inr s4" using p by simp
    from resample_images_order [OF this] show ?thesis using True sp(3) sp(4) by simp
  next
    case False
    then show ?thesis using p by simp
  qed
  have d1: "science_inputs (calls s') = science_inputs (calls s4)
              @ (if do_seds cfg then map resampled_path ims else [])"
  proof (cases "do_seds cfg")
    case True
    then have "output_seds S ims1 s4 = Inr s'" using d by simp
    from output_seds_order [OF this] show ?thesis using True sp(4) by simp
  next
    case False
    then show ?thesis using d by simp
  qed
  show ?thesis
    by (simp only: d1 p1 v1 r1 c2 append_assoc)
qed

subsection \<open>The sorted collection and the runs on it\<close>

text \<open>
  C7. Whenever ingestion succeeds, the collection \<open>images_with_headers\<close> is sorted
  non-decreasing by the number that \<open>read_file\<close> wrote into \<open>WAVELENG\<close> (in micron),
  and any other order of the same input files succeeds too and gives the same sequence
  of wavelengths. Every stage then takes the images in that order: the conversion
  stage returns the collection with the same paths and wavelengths and appends the
  converted arrays to \<open>converted_data\<close> image by image; and in a run of the main
  program the science files that the enabled stages hand to IRAF or open are, stage
  after stage, those of the first image of the collection, then of the second, and so
  on to the last.
\<close>

theorem images_with_headers_sorted:
  assumes "images_with_headers E all_files = Inr ims"
  shows "sorted (map waveleng ims)
         \<and> (\<forall>im \<in> set ims. hdr im ''WAVELENG'' = Some (Num (waveleng im), ''micron''))
         \<and> (\<forall>reordered. mset reordered = mset all_files \<longrightarrow>
               (\<exists>ims'. images_with_headers E reordered = Inr ims'
                       \<and> map waveleng ims' = map waveleng ims))
         \<and> (\<forall>w ims' w'. convert_images E ims w = Inr (ims', w')
               \<longrightarrow> sorted (map waveleng ims')
                   \<and> map waveleng ims' = map waveleng ims
                   \<and> map path ims' = map path ims
                   \<and> converted_data w' = converted_data w @ map (converted_array E) ims)
         \<and> (\<forall>S cfg s s'. \<not> do_cleanup cfg \<and> main E S cfg all_files s = Inr s'
               \<longrightarrow> science_inputs (calls s') =
                     science_inputs (calls s)
                     @ (if do_registration cfg then map converted_path ims else [])
                     @ (if do_convolution cfg then map registered_path ims else [])
                     @ (if do_resampling cfg
                        then map convolved_path ims @ map resampled_path ims else [])
                     @ (if do_seds cfg then map resampled_path ims else []))"
proof -
  from assms obtain unsorted where
    u: "read_files E all_files = Inr unsorted" and s: "ims = sort_key waveleng unsorted"
    by (auto simp: images_with_headers_def split: sum.splits)
  have 1: "sorted (map waveleng ims)" using s by simp
  have 2: "\<forall>im \<in> set ims. hdr im ''WAVELENG'' = Some (Num (waveleng im), ''micron'')"
  proof
    fix im assume "im \<in> set ims"
    then have "im \<in> set unsorted" using s by simp
    then obtain r where "hdr im ''WAVELENG'' = Some (Num r, ''micron'')"
      using read_files_waveleng [OF u] by blast
    then show "hdr im ''WAVELENG'' = Some (Num (waveleng im), ''micron'')"
      by (simp add: waveleng_def)
  qed
  have 3: "\<exists>ims'. images_with_headers E reordered = Inr ims'
                  \<and> map waveleng ims' = map waveleng ims"
    if m: "mset reordered = mset all_files" for reordered
  proof -
    let ?g = "\<lambda>f. projr (read_file E f)"
    have "set reordered = set all_files" using m by (rule mset_eq_setD)
    then have "\<forall>f \<in> set reordered. \<not> isl (read_file E f)"
      using read_files_map [OF u] by simp
    then have r: "read_files E reordered = Inr (map ?g reordered)"
      by (rule read_files_total)
    have "mset (map ?g reordered) = mset unsorted"
      using read_files_map [OF u] m by (metis mset_map)
    then have "mset (map waveleng (sort_key waveleng (map ?g reordered)))
                 = mset (map waveleng ims)"
      using s by (metis mset_map mset_sort)
    then have "map waveleng (sort_key waveleng (map ?g reordered)) = map waveleng ims"
      using 1 by (intro sorted_same_mset) simp_all
    then show ?thesis using r by (simp add: images_with_headers_def)
  qed
  have 4: "sorted (map waveleng ims')
           \<and> map waveleng ims' = map waveleng ims
           \<and> map path ims' = map path ims
           \<and> converted_data w' = converted_data w @ map (converted_array E) ims"
    if "convert_images E ims w = Inr (ims', w')" for w ims' w'
    using convert_images_waveleng [OF that] convert_images_order [OF that] 1 by simp
  have 5: "science_inputs (calls s') =
             science_inputs (calls s)
             @ (if do_registration cfg then map converted_path ims else [])
             @ (if do_convolution cfg then map registered_path ims else [])
             @ (if do_resampling cfg
                then map convolved_path ims @ map resampled_path ims else [])
             @ (if do_seds cfg then map resampled_path ims else [])"
    if "\<not> do_cleanup cfg \<and> main E S cfg all_files s = Inr s'" for S cfg s s'
    using main_order [OF assms] that by blast
  show ?thesis using 1 2 3 4 5 by blast
qed

subsection \<open>A run of every stage on two observations\<close>

lemma observations_ingested:
  "images_with_headers astropy_units observations =
     Inr [observed ''m51/pacs70'' 70, observed ''m51/pacs160'' 160]"
  by (simp add: images_with_headers_def observations_def observation_def read_file_def Let_def
      get_wavelength_def wavelength_to_microns_def astropy_units_def py_float_def
      setitem_comment_def splitext_root_def observed_def waveleng_def fun_upd_twist)

lemma convert_observed:
  "\<exists>w'. convert_image astropy_units (observed n w) wld = Inr (converted n w, w')"
  by (simp add: convert_image_def observed_def converted_def get_instrument_def
      get_conversion_factor_def Let_def setitem_def setitem_comment_def)

lemma convert_observations:
  "\<exists>w'. convert_images astropy_units [observed a 70, observed b 160] wld
         = Inr ([converted a 70, converted b 160], w')"
proof -
  obtain w1 where 1: "convert_image astropy_units (observed a 70) wld = Inr (converted a 70, w1)"
    using convert_observed by blast
  obtain w2 where 2: "convert_image astropy_units (observed b 160) w1 = Inr (converted b 160, w2)"
    using convert_observed by blast
  show ?thesis using 1 2 by simp
qed

lemma converted_header:
  "get_instrument (hdr (converted n w)) = Inr (Str ''PACS'')"
  "get_native_pixelscale (hdr (converted n w)) (Str ''PACS'') = Inr (Num 2)"
  "getitem (hdr (converted n w)) ''BUNIT'' = Inr (Str ''Jy/pixel'')"
  "getitem (hdr (converted n w)) ''CRVAL1'' = Inr (Num 202)"
  "getitem (hdr (converted n w)) ''CRVAL2'' = Inr (Num 47)"
  "get_wavelength (hdr (converted n w)) = Inr (Num w, ''micron'')"
  by (simp_all add: converted_def observed_def get_instrument_def get_native_pixelscale_def
      getitem_def py_abs_def deg_to_arcsec_def get_wavelength_def)

lemma fwhm_converted:
  "get_fwhm_value [converted a 70, converted b 160] = Inr 18"
  by (simp add: get_fwhm_value_def converted_header covers_def wavelength_range_def
      py_ge_def py_le_def)

lemma reference_converted:
  "register_images_reference None None [converted a 70, converted b 160]
     = Inr (Fin 202, Fin 47)"
  by (simp add: register_images_reference_def get_herschel_mean_def converted_header
      np_mean_def py_number_def)

lemma all_stages_fields:
  "g_phys_size all_stages = Some 60" "g_ra_input all_stages = None"
  "g_dec_input all_stages = None" "g_directory all_stages = ''m51''"
  "do_conversion all_stages" "do_registration all_stages" "do_convolution all_stages"
  "do_resampling all_stages" "do_seds all_stages" "\<not> do_cleanup all_stages"
  by (simp_all add: all_stages_def)

lemma register_converted:
  "\<exists>s'. register_image all_stages lng lat (converted n w) s = Inr s'"
  by (simp add: register_image_def converted_header Let_def all_stages_fields size_div_def
      py_div_def)

lemma register_run:
  "\<exists>s'. register_images all_stages [converted a 70, converted b 160] s = Inr s'"
proof -
  obtain s1 where 1: "register_image all_stages (Fin 202) (Fin 47) (converted a 70) s = Inr s1"
    using register_converted by blast
  obtain s2 where 2: "register_image all_stages (Fin 202) (Fin 47) (converted b 160) s1 = Inr s2"
    using register_converted by blast
  show ?thesis
    using 1 2 by (simp add: register_images_def reference_converted all_stages_fields)
qed

lemma convolve_converted:
  "\<exists>s'. convolve_image test_services 18 (converted n w) s = Inr s'"
  by (simp add: convolve_image_def converted_header Let_def test_services_def py_number_def
      py_div_def)

lemma convolve_run:
  "\<exists>s'. convolve_images test_services [converted a 70, converted b 160] s = Inr s'"
proof -
  obtain s1 where 1: "convolve_image test_services 18 (converted a 70) s = Inr s1"
    using convolve_converted by blast
  obtain s2 where 2: "convolve_image test_services 18 (converted b 160) s1 = Inr s2"
    using convolve_converted by blast
  show ?thesis using 1 2 by (simp add: convolve_images_def fwhm_converted)
qed

lemma cube_run:
  "\<exists>s'. create_data_cube all_stages test_services [converted a 70, converted b 160] s = Inr s'"
  by (simp add: create_data_cube_def Let_def test_services_def)

lemma resample_run:
  "\<exists>s'. resample_images all_stages test_services [converted a 70, converted b 160] s = Inr s'"
  using cube_run
  by (simp add: resample_images_def Let_def fwhm_converted reference_converted size_div_def
      py_div_def all_stages_fields NYQUIST_SAMPLING_RATE_def)

lemma seds_run:
  "\<exists>s'. output_seds test_services [converted a 70, converted b 160] s = Inr s'"
  by (simp add: output_seds_def Let_def test_services_def converted_header)

lemma main_runs:
  "\<exists>s'. main astropy_units test_services all_stages observations start = Inr s'"
proof -
  let ?c = "[converted ''m51/pacs70'' 70, converted ''m51/pacs160'' 160]"
  obtain w1 where
    c: "convert_images astropy_units [observed ''m51/pacs70'' 70, observed ''m51/pacs160'' 160]
          (disk start) = Inr (?c, w1)"
    using convert_observations by blast
  obtain s2 where r: "register_images all_stages ?c (start\<lparr>disk := w1\<rparr>) = Inr s2"
    using register_run by blast
  obtain s3 where v: "convolve_images test_services ?c s2 = Inr s3"
    using convolve_run by blast
  obtain s4 where p: "resample_images all_stages test_services ?c s3 = Inr s4"
    using resample_run by blast
  obtain s5 where d: "output_seds test_services ?c s4 = Inr s5"
    using seds_run by blast
  show ?thesis
    unfolding main_def observations_ingested
    using c r v p d by (simp add: all_stages_fields)
qed

lemma observed_paths:
  "converted_path (observed ''m51/pacs70'' w) = ''m51/converted/pacs70_converted.fits''"
  "converted_path (observed ''m51/pacs160'' w) = ''m51/converted/pacs160_converted.fits''"
  "registered_path (observed ''m51/pacs70'' w) = ''m51/registered/pacs70_registered.fits''"
  "registered_path (observed ''m51/pacs160'' w) = ''m51/registered/pacs160_registered.fits''"
  "convolved_path (observed ''m51/pacs70'' w) = ''m51/convolved/pacs70_convolved.fits''"
  "convolved_path (observed ''m51/pacs160'' w) = ''m51/convolved/pacs160_convolved.fits''"
  "resampled_path (observed ''m51/pacs70'' w) = ''m51/resampled/pacs70_resampled.fits''"
  "resampled_path (observed ''m51/pacs160'' w) = ''m51/resampled/pacs160_resampled.fits''"
  by (simp_all add: converted_path_def registered_path_def convolved_path_def
      resampled_path_def observed_def dirname_def basename_def py_split_def)

theorem images_with_headers_sorted_witness:
  "images_with_headers astropy_units observations =
     Inr [observed ''m51/pacs70'' 70, observed ''m51/pacs160'' 160]
   \<and> map waveleng [observed ''m51/pacs70'' 70, observed ''m51/pacs160'' 160] = [70, 160]
   \<and> mset (rev observations) = mset observations
   \<and> map waveleng (projr (images_with_headers astropy_units (rev observations))) = [70, 160]
   \<and> \<not> isl (convert_images astropy_units
               [observed ''m51/pacs70'' 70, observed ''m51/pacs160'' 160] empty_world)
   \<and> map path (fst (projr (convert_images astropy_units
         [observed ''m51/pacs70'' 70, observed ''m51/pacs160'' 160] empty_world)))
       = [''m51/pacs70'', ''m51/pacs160'']
   \<and> map waveleng (fst (projr (convert_images astropy_units
         [observed ''m51/pacs70'' 70, observed ''m51/pacs160'' 160] empty_world)))
       = [70, 160]
   \<and> converted_data (snd (projr (convert_images astropy_units
         [observed ''m51/pacs70'' 70, observed ''m51/pacs160'' 160] empty_world)))
       = map (converted_array astropy_units)
           [observed ''m51/pacs70'' 70, observed ''m51/pacs160'' 160]
   \<and> \<not> do_cleanup all_stages
   \<and> \<not> isl (main astropy_units test_services all_stages observations start)
   \<and> science_inputs (calls (projr (main astropy_units test_services all_stages
                                       observations start)))
       = [''m51/converted/pacs70_converted.fits'', ''m51/converted/pacs160_converted.fits'',
          ''m51/registered/pacs70_registered.fits'', ''m51/registered/pacs160_registered.fits'',
          ''m51/convolved/pacs70_convolved.fits'', ''m51/convolved/pacs160_convolved.fits'',
          ''m51/resampled/pacs70_resampled.fits'', ''m51/resampled/pacs160_resampled.fits'',
          ''m51/resampled/pacs70_resampled.fits'', ''m51/resampled/pacs160_resampled.fits'']"
proof -
  let ?ims = "[observed ''m51/pacs70'' 70, observed ''m51/pacs160'' 160]"
  note t = images_with_headers_sorted [OF observations_ingested]
  have k: "map waveleng ?ims = [70, 160]"
    by (simp add: observed_def waveleng_def)
  have p: "map path ?ims = [''m51/pacs70'', ''m51/pacs160'']"
    by (simp add: observed_def)
  have m: "mset (rev observations) = mset observations" by simp
  from t m obtain ims' where
    "images_with_headers astropy_units (rev observations) = Inr ims'"
    and "map waveleng ims' = map waveleng ?ims" by blast
  then have r: "map waveleng (projr (images_with_headers astropy_units (rev observations)))
                  = [70, 160]"
    using k by simp
  obtain ims2 w2 where c: "convert_images astropy_units ?ims empty_world = Inr (ims2, w2)"
    using convert_observations by blast
  from t c have c': "map waveleng ims2 = map waveleng ?ims \<and> map path ims2 = map path ?ims
      \<and> converted_data w2 = converted_data empty_world @ map (converted_array astropy_units) ?ims"
    by blast
  have e: "converted_data empty_world = []" by (simp add: empty_world_def)
  obtain s' where r': "main astropy_units test_services all_stages observations start = Inr s'"
    using main_runs by blast
  have n: "\<not> do_cleanup all_stages" by (simp add: all_stages_fields)
  from t n r' have
    "science_inputs (calls s') =
       science_inputs (calls start)
       @ (if do_registration all_stages then map converted_path ?ims else [])
       @ (if do_convolution all_stages then map registered_path ?ims else [])
       @ (if do_resampling all_stages
          then map convolved_path ?ims @ map resampled_path ?ims else [])
       @ (if do_seds all_stages then map resampled_path ?ims else [])"
    by blast
  then have q: "science_inputs (calls s') =
       [''m51/converted/pacs70_converted.fits'', ''m51/converted/pacs160_converted.fits'',
        ''m51/registered/pacs70_registered.fits'', ''m51/registered/pacs160_registered.fits'',
        ''m51/convolved/pacs70_convolved.fits'', ''m51/convolved/pacs160_convolved.fits'',
        ''m51/resampled/pacs70_resampled.fits'', ''m51/resampled/pacs160_resampled.fits'',
        ''m51/resampled/pacs70_resampled.fits'', ''m51/resampled/pacs160_resampled.fits'']"
    by (simp add: all_stages_fields observed_paths start_def science_inputs_def)
  show ?thesis
    using observations_ingested k m r c c' e p n r' q by simp
qed

end
